theory Spec2Isabelle
  imports Main "HOL-Library.Sublist"
begin

section \<open>JavaScript values used by the dashboard\<close>

text \<open>
  A JavaScript string is the list of its UTF-16 code units. \<open>js\<close> writes a literal of the
  source (all of them ASCII) as such a list. An optional property (\<^verbatim>\<open>x?: T\<close>) that is
  read is an \<^typ>\<open>'a option\<close>, \<^term>\<open>None\<close> standing for \<^verbatim>\<open>undefined\<close>, whether the key is
  absent or holds \<^verbatim>\<open>undefined\<close>. A \<^verbatim>\<open>Date\<close> is its time value in milliseconds.
\<close>

type_synonym jsString = "nat list"

definition js :: "string \<Rightarrow> jsString" where
  "js s = map of_char s"

type_synonym Date = int

text \<open>
  An optional key of an object that is spread into another one: the spread copies the key
  when the object has it, also when its value is \<^verbatim>\<open>undefined\<close>, and leaves the target's
  value when the object has no such key.
\<close>

datatype 'a optionalKey = Absent | Undefined | Present 'a

definition keyValue :: "'a optionalKey \<Rightarrow> 'a option" where
  \<comment> \<open>reading the key\<close>
  "keyValue k = (case k of Absent \<Rightarrow> None | Undefined \<Rightarrow> None | Present v \<Rightarrow> Some v)"

definition spreadKey :: "'a option \<Rightarrow> 'a optionalKey \<Rightarrow> 'a option" where
  \<comment> \<open>the key of \<^verbatim>\<open>{ ...target, ...source }\<close>, from the target's value and the source's key\<close>
  "spreadKey old k = (case k of Absent \<Rightarrow> old | Undefined \<Rightarrow> None | Present v \<Rightarrow> Some v)"

definition truthy :: "jsString option \<Rightarrow> bool" where
  \<comment> \<open>truthiness of an optional string: \<^verbatim>\<open>undefined\<close> and the empty string are falsy\<close>
  "truthy x = (case x of None \<Rightarrow> False | Some v \<Rightarrow> v \<noteq> [])"

definition orElse :: "jsString option \<Rightarrow> jsString option \<Rightarrow> jsString option" where
  \<comment> \<open>\<^verbatim>\<open>a || b\<close> on optional strings\<close>
  "orElse a b = (if truthy a then a else b)"

definition orNA :: "jsString option \<Rightarrow> jsString" where
  \<comment> \<open>\<^verbatim>\<open>x || 'N/A'\<close>\<close>
  "orNA x = (case x of None \<Rightarrow> js ''N/A'' | Some v \<Rightarrow> if v = [] then js ''N/A'' else v)"

abbreviation NL :: jsString where
  "NL \<equiv> [0xA]"

definition isWhitespace :: "nat \<Rightarrow> bool" where
  \<comment> \<open>the code units \<^verbatim>\<open>String.prototype.trim\<close> strips: WhiteSpace (TAB, VT, FF, ZWNBSP and the
     space separators SP, NBSP, U+1680, U+2000 to U+200A, U+202F, U+205F, U+3000) and
     LineTerminator (LF, CR, LS, PS)\<close>
  "isWhitespace c =
     (c \<in> {0x9, 0xA, 0xB, 0xC, 0xD, 0x20, 0xA0, 0x1680, 0x2028, 0x2029, 0x202F, 0x205F,
            0x3000, 0xFEFF} \<or>
      (0x2000 \<le> c \<and> c \<le> 0x200A))"

definition trim :: "jsString \<Rightarrow> jsString" where
  "trim s = rev (dropWhile isWhitespace (rev (dropWhile isWhitespace s)))"

fun joinStr :: "jsString \<Rightarrow> jsString list \<Rightarrow> jsString" where
  \<comment> \<open>\<^verbatim>\<open>Array.prototype.join\<close>\<close>
  "joinStr sep [] = []"
| "joinStr sep [x] = x"
| "joinStr sep (x # y # ys) = x @ sep @ joinStr sep (y # ys)"

fun startsWith :: "jsString \<Rightarrow> jsString \<Rightarrow> bool" where
  \<comment> \<open>\<^verbatim>\<open>s.startsWith(t)\<close>\<close>
  "startsWith s [] = True"
| "startsWith [] (t # ts) = False"
| "startsWith (c # s) (t # ts) = (c = t \<and> startsWith s ts)"

fun includesStr :: "jsString \<Rightarrow> jsString \<Rightarrow> bool" where
  \<comment> \<open>\<^verbatim>\<open>s.includes(t)\<close>: \<open>t\<close> occurs in \<open>s\<close> as a contiguous run of code units\<close>
  "includesStr [] t = (t = [])"
| "includesStr (c # s) t = (startsWith (c # s) t \<or> includesStr s t)"

text \<open>
  Three library functions are parameters of what uses them: \<open>lower\<close> is
  \<^verbatim>\<open>String.prototype.toLowerCase\<close>, \<open>fmt\<close> is \<^verbatim>\<open>format(date, pattern)\<close> of date-fns for the
  pattern at hand, which prints the date in the time zone of the host, and \<open>randomUUID\<close>
  gives the \<open>n\<close>-th identifier \<^verbatim>\<open>crypto.randomUUID\<close> hands out.
\<close>

section \<open>date-fns \<^verbatim>\<open>format\<close> on a host\<close>

text \<open>
  What \<^verbatim>\<open>format\<close> of date-fns prints for the two patterns of the page, with its default
  locale (en-US). It reads the date through the local getters of \<^verbatim>\<open>Date\<close>
  (\<^verbatim>\<open>getFullYear\<close>, \<^verbatim>\<open>getMonth\<close>, \<^verbatim>\<open>getDate\<close>): the civil date of the time value moved by the
  host's offset from UTC. \<open>tz d\<close> is \<^verbatim>\<open>d.getTimezoneOffset()\<close>, the minutes the host's clock
  is behind UTC at the instant \<open>d\<close>; a \<^typ>\<open>Date\<close> is a valid one.
\<close>

definition localDay :: "(Date \<Rightarrow> int) \<Rightarrow> Date \<Rightarrow> int" where
  \<comment> \<open>the days from 1970-01-01 to the local calendar day of the instant\<close>
  "localDay tz d = (d - tz d * 60000) div 86400000"

definition civil :: "int \<Rightarrow> int \<times> int \<times> int" where
  \<comment> \<open>year, month (1 to 12) and day of the month of a day number, proleptic Gregorian\<close>
  "civil n =
     (let z = n + 719468;
          era = z div 146097;
          doe = z - era * 146097;
          yoe = (doe - doe div 1460 + doe div 36524 - doe div 146096) div 365;
          doy = doe - (365 * yoe + yoe div 4 - yoe div 100);
          mp = (5 * doy + 2) div 153;
          dom = doy - (153 * mp + 2) div 5 + 1;
          m = (if mp < 10 then mp + 3 else mp - 9)
      in (yoe + era * 400 + (if m \<le> 2 then 1 else 0), m, dom))"

fun decimal :: "nat \<Rightarrow> jsString" where
  \<comment> \<open>the decimal digits of a number\<close>
  "decimal n = (if n < 10 then [0x30 + n] else decimal (n div 10) @ [0x30 + n mod 10])"

declare decimal.simps [simp del]

definition addLeadingZeros :: "nat \<Rightarrow> nat \<Rightarrow> jsString" where
  "addLeadingZeros n targetLength =
     replicate (targetLength - length (decimal n)) 0x30 @ decimal n"

definition yearOfEra :: "int \<Rightarrow> nat" where
  \<comment> \<open>\<^verbatim>\<open>signedYear > 0 ? signedYear : 1 - signedYear\<close>\<close>
  "yearOfEra y = nat (if y > 0 then y else 1 - y)"




definition formatISODay :: "(Date \<Rightarrow> int) \<Rightarrow> Date \<Rightarrow> jsString" where
  \<comment> \<open>\<^verbatim>\<open>format(d, 'yyyy-MM-dd')\<close>\<close>
  "formatISODay tz d =
     (let (y, m, dom) = civil (localDay tz d)
      in addLeadingZeros (yearOfEra y) 4 @ js ''-'' @ addLeadingZeros (nat m) 2 @ js ''-'' @
         addLeadingZeros (nat dom) 2)"

section \<open>The CRQ record (zod schemas of the form)\<close>

datatype Risk = Low | Medium | High

fun riskStr :: "Risk \<Rightarrow> jsString" where
  "riskStr Low = js ''Low''"
| "riskStr Medium = js ''Medium''"
| "riskStr High = js ''High''"

record ApplicationChanges =
  code :: bool
  codeVersion :: "jsString option"
  ccm :: bool
  ccmVersion :: "jsString option"
  db :: bool
  dbVersion :: "jsString option"
  akeyless :: bool
  akeylessVersion :: "jsString option"

record Application =
  name :: jsString
  changes :: ApplicationChanges

record MonitoredChange =
  name :: jsString
  mms :: "jsString option"
  splunk :: "jsString option"

record TestResults =
  functional :: bool
  regression :: bool
  performance :: bool

record ImpactAnalysis =
  burstAreaOverall :: "jsString option"
  burstAreaTender :: "jsString option"
  possibleImpactAreas :: "jsString option"
  businessUserImpact :: "jsString option"
  impactedTeams :: "jsString option"
  instructionsSent :: "jsString option"
  teamsToNotify :: "jsString option"

record RiskAssessment =
  risk :: "Risk option"
  mitigationPlan :: "jsString option"

record ImplementationPlan =
  implementationStartDate :: "Date option"
  duration :: "jsString option"
  applications :: "Application list"

record ValidationPlan =
  duration :: "jsString option"
  monitoredChanges :: "MonitoredChange list"
  whenToRollback :: "jsString option"

record BackoutPlan =
  isTested :: bool
  changes :: ApplicationChanges
  monitoredChanges :: "MonitoredChange list"

section \<open>The browser: storage, console, exceptions\<close>

datatype exn = QuotaExceededError | TypeError

datatype LogEntry = ErrorReading jsString | ErrorSetting jsString | FailedToParse

text \<open>
  \<^verbatim>\<open>window.localStorage\<close>: the items, and whether \<^verbatim>\<open>setItem\<close> throws (quota reached or
  storage disabled), which the page cannot influence.
\<close>

record LocalStorage =
  items :: "jsString \<rightharpoonup> jsString"
  quotaExceeded :: bool

definition getItem :: "LocalStorage \<Rightarrow> jsString \<Rightarrow> jsString option" where
  "getItem st k = items st k"

definition setItem :: "LocalStorage \<Rightarrow> jsString \<Rightarrow> jsString \<Rightarrow> exn + LocalStorage" where
  "setItem st k v =
     (if quotaExceeded st then Inl QuotaExceededError
      else Inr (st\<lparr>items := (items st)(k \<mapsto> v)\<rparr>))"

definition removeItem :: "LocalStorage \<Rightarrow> jsString \<Rightarrow> LocalStorage" where
  "removeItem st k = st\<lparr>items := (items st)(k := None)\<rparr>"

text \<open>What a handler or effect does: it returns, or an exception leaves it.\<close>

datatype 's outcome = Returned 's | Threw exn 's

definition andThen :: "'s outcome \<Rightarrow> ('s \<Rightarrow> 's outcome) \<Rightarrow> 's outcome" where
  \<comment> \<open>sequencing: an exception skips what follows\<close>
  "andThen r f = (case r of Returned s \<Rightarrow> f s | Threw e s \<Rightarrow> Threw e s)"

definition finalState :: "'s outcome \<Rightarrow> 's" where
  "finalState r = (case r of Returned s \<Rightarrow> s | Threw e s \<Rightarrow> s)"

section \<open>Template pieces shared by both variants\<close>

text \<open>
  A template literal that spans several source lines is written as its lines joined by the
  line feed; a literal that opens or closes with a line break has an empty first line, or
  a last line holding only the indentation of the closing backquote.
\<close>

definition attachedYesNo :: "bool \<Rightarrow> jsString" where
  \<comment> \<open>\<^verbatim>\<open>b ? 'Yes - Attached on ServiceNow' : 'No'\<close>\<close>
  "attachedYesNo b = (if b then js ''Yes - Attached on ServiceNow'' else js ''No'')"

definition versionYesNo :: "jsString \<Rightarrow> bool \<Rightarrow> jsString option \<Rightarrow> jsString" where
  \<comment> \<open>\<^verbatim>\<open>b ? `Yes - <what>: ${v || 'N/A'}` : 'No'\<close>\<close>
  "versionYesNo what b v = (if b then js ''Yes - '' @ what @ js '': '' @ orNA v else js ''No'')"

definition applicationText :: "Application \<Rightarrow> jsString" where
  "applicationText app =
     joinStr NL
       [js ''  Application: '' @ Application.name app,
        js ''    Changes in:'',
        js ''      Code: '' @ versionYesNo (js ''Release Version'') (code (Application.changes app))
           (codeVersion (Application.changes app)),
        js ''      CCM: '' @ versionYesNo (js ''Release Version'') (ccm (Application.changes app))
           (ccmVersion (Application.changes app)),
        js ''      DB: '' @ versionYesNo (js ''Release Version'') (db (Application.changes app))
           (dbVersion (Application.changes app)),
        js ''      Akeyless: '' @
           versionYesNo (js ''Release Version'') (akeyless (Application.changes app))
           (akeylessVersion (Application.changes app))]"

definition monitoredChangeText :: "MonitoredChange \<Rightarrow> jsString" where
  "monitoredChangeText change =
     joinStr NL
       [js ''    Change: '' @ MonitoredChange.name change,
        js ''      Monitor:'',
        js ''        MMS: '' @ orNA (mms change),
        js ''        Splunk/Openobserve: '' @ orNA (splunk change)]"

definition testResultLines :: "TestResults \<Rightarrow> jsString list" where
  "testResultLines t =
     [js ''Functional: '' @ attachedYesNo (functional t),
      js ''Regression: '' @ attachedYesNo (regression t),
      js ''Performance: '' @ attachedYesNo (performance t)]"

definition revertLines :: "ApplicationChanges \<Rightarrow> jsString list" where
  \<comment> \<open>the four lines under \<^verbatim>\<open>Changes to Revert:\<close> in the backout plan\<close>
  "revertLines c =
     [js ''    Code: '' @ versionYesNo (js ''Previous Release Version'') (code c) (codeVersion c),
      js ''    CCM: '' @ versionYesNo (js ''Previous Release Version'') (ccm c) (ccmVersion c),
      js ''    DB: '' @ versionYesNo (js ''Previous Release Version'') (db c) (dbVersion c),
      js ''    Akeyless: '' @
        versionYesNo (js ''Previous Release Version'') (akeyless c) (akeylessVersion c)]"

definition riskLevelText :: "Risk option \<Rightarrow> jsString" where
  \<comment> \<open>\<^verbatim>\<open>riskAssessment?.risk || 'N/A'\<close>\<close>
  "riskLevelText r = (case r of None \<Rightarrow> js ''N/A'' | Some l \<Rightarrow> riskStr l)"

definition impactLines :: "ImpactAnalysis option \<Rightarrow> jsString list" where
  \<comment> \<open>the seven lines of the impact analysis, each \<^verbatim>\<open>impactAnalysis?.field || 'N/A'\<close>\<close>
  "impactLines ia =
     [js ''Burst Area - Overall: '' @ orNA (Option.bind ia burstAreaOverall),
      js ''Burst Area - Tender: '' @ orNA (Option.bind ia burstAreaTender),
      js ''Possible impact areas: '' @ orNA (Option.bind ia possibleImpactAreas),
      js ''Business/User Impact: '' @ orNA (Option.bind ia businessUserImpact),
      js ''Teams impacted by this change: '' @ orNA (Option.bind ia impactedTeams),
      js ''Instructions to upstream/downstream sent out: '' @
        orNA (Option.bind ia instructionsSent),
      js ''Teams to be notified: '' @ orNA (Option.bind ia teamsToNotify)]"

section \<open>Example values\<close>

definition noChanges :: ApplicationChanges where
  "noChanges =
     \<lparr>code = False, codeVersion = None, ccm = False, ccmVersion = None,
      db = False, dbVersion = None, akeyless = False, akeylessVersion = None\<rparr>"

definition sampleApplication :: Application where
  "sampleApplication = \<lparr>Application.name = js ''Application 1'', changes = noChanges\<rparr>"

definition sampleChange :: MonitoredChange where
  "sampleChange = \<lparr>MonitoredChange.name = js ''Change 1'', mms = None, splunk = None\<rparr>"

definition sampleValidation :: ValidationPlan where
  "sampleValidation =
     \<lparr>ValidationPlan.duration = None, monitoredChanges = [sampleChange], whenToRollback = None\<rparr>"

definition sampleBackout :: BackoutPlan where
  "sampleBackout = \<lparr>isTested = False, changes = noChanges, monitoredChanges = [sampleChange]\<rparr>"

definition sampleStart :: Date where
  \<comment> \<open>2025-03-01T00:00:00.000Z\<close>
  "sampleStart = 1740787200000"

definition asciiLower :: "jsString \<Rightarrow> jsString" where
  \<comment> \<open>what \<^verbatim>\<open>toLowerCase\<close> does to a string of ASCII characters\<close>
  "asciiLower s = map (\<lambda>c. if 0x41 \<le> c \<and> c \<le> 0x5A then c + 0x20 else c) s"

section \<open>Early variant (\<^verbatim>\<open>src/app/page.tsx\<close>)\<close>

text \<open>
  The early page has its own form schema and its own status labels, and it writes to
  storage inside its handlers. Its names are qualified (\<open>CRQ_v1.status\<close>,
  \<open>Status_v1.Pending\<close>) wherever the extended variant declares the same name later.
  The form has no input for \<open>id\<close>: the key is absent on a new form and holds the id of the
  edited record, a string, on an edit.
\<close>

datatype Status_v1 = Pending | Approved | Rejected | Implemented | Closed

fun statusStr_v1 :: "Status_v1 \<Rightarrow> jsString" where
  "statusStr_v1 Pending = js ''Pending''"
| "statusStr_v1 Approved = js ''Approved''"
| "statusStr_v1 Rejected = js ''Rejected''"
| "statusStr_v1 Implemented = js ''Implemented''"
| "statusStr_v1 Closed = js ''Closed''"

record FormValues_v1 =
  id :: "jsString option"
  crqNumber :: "jsString optionalKey"
  summary :: jsString
  briefDescription :: jsString
  purpose :: jsString
  testResults :: TestResults
  impactAnalysis :: ImpactAnalysis
  riskAssessment :: RiskAssessment
  implementationPlan :: ImplementationPlan
  validationPlan :: ValidationPlan
  backoutPlan :: BackoutPlan

record CRQ_v1 =
  id :: jsString
  sysId :: "jsString option"
  status :: Status_v1
  reviewer :: "jsString option"
  crqNumber :: "jsString option"
  summary :: jsString
  briefDescription :: jsString
  purpose :: jsString
  testResults :: TestResults
  impactAnalysis :: ImpactAnalysis
  riskAssessment :: RiskAssessment
  implementationPlan :: ImplementationPlan
  validationPlan :: ValidationPlan
  backoutPlan :: BackoutPlan

record Dashboard_v1 =
  crqs :: "CRQ_v1 list"
  isFormOpen :: bool
  isCopyOpen :: bool
  editingCrq :: "CRQ_v1 option"
  crqToCopy :: "CRQ_v1 option"
  isReviewerModalOpen :: bool
  reviewerName :: jsString
  selectedCrqForReview :: "CRQ_v1 option"
  statusToSetForReview :: "Status_v1 option"
  localStorage :: LocalStorage
  console :: "LogEntry list"
  toasts :: "jsString list"
  uuidsDrawn :: nat

definition toast_v1 :: "jsString \<Rightarrow> Dashboard_v1 \<Rightarrow> Dashboard_v1" where
  "toast_v1 title s = s\<lparr>toasts := toasts s @ [title]\<rparr>"

definition initialDashboard_v1 :: "LocalStorage \<Rightarrow> Dashboard_v1" where
  "initialDashboard_v1 st =
     \<lparr>crqs = [], isFormOpen = False, isCopyOpen = False, editingCrq = None, crqToCopy = None,
      isReviewerModalOpen = False, reviewerName = [], selectedCrqForReview = None,
      statusToSetForReview = None, localStorage = st, console = [], toasts = [],
      uuidsDrawn = 0\<rparr>"

text \<open>
  The callback of \<^verbatim>\<open>savedCrqs.map\<close> in the load effect, threading how many UUIDs were drawn.
  A status is never falsy, so \<^verbatim>\<open>crq.status || 'Pending'\<close> keeps it.
\<close>

fun initializeCrqs :: "(nat \<Rightarrow> jsString) \<Rightarrow> nat \<Rightarrow> CRQ_v1 list \<Rightarrow> CRQ_v1 list \<times> nat" where
  "initializeCrqs randomUUID n [] = ([], n)"
| "initializeCrqs randomUUID n (crq # rest) =
     (let (i, n1) = (if id crq \<noteq> [] then (id crq, n) else (randomUUID n, n + 1));
          (si, n2) = (if truthy (sysId crq) then (sysId crq, n1) else (Some (randomUUID n1), n1 + 1));
          (rest', n3) = initializeCrqs randomUUID n2 rest
      in (crq\<lparr>id := i, sysId := si\<rparr> # rest', n3))"

definition load_v1 ::
  "(jsString \<Rightarrow> CRQ_v1 list option) \<Rightarrow> (nat \<Rightarrow> jsString) \<Rightarrow> LocalStorage \<Rightarrow> Dashboard_v1 outcome" where
  \<comment> \<open>mounting the page: the load effect on the initial state. \<open>parse\<close> is \<^verbatim>\<open>JSON.parse\<close>
     with the cast to \<^verbatim>\<open>CRQ[]\<close>; it is \<^term>\<open>None\<close> when \<^verbatim>\<open>JSON.parse\<close> throws or the value has
     no \<^verbatim>\<open>map\<close>, both caught by the same \<^verbatim>\<open>catch\<close>\<close>
  "load_v1 parse randomUUID st =
     (let s = initialDashboard_v1 st in
      case getItem (localStorage s) (js ''crq_list'') of
        None \<Rightarrow> Returned s
      | Some savedCrqsRaw \<Rightarrow>
          if savedCrqsRaw = [] then Returned s
          else (case parse savedCrqsRaw of
                  Some savedCrqs \<Rightarrow>
                    (let (initializedCrqs, n) = initializeCrqs randomUUID (uuidsDrawn s) savedCrqs
                     in Returned (s\<lparr>crqs := initializedCrqs, uuidsDrawn := n\<rparr>))
                | None \<Rightarrow>
                    Returned (s\<lparr>console := console s @ [FailedToParse],
                                localStorage := removeItem (localStorage s) (js ''crq_list'')\<rparr>)))"

definition mergeEdit_v1 :: "CRQ_v1 \<Rightarrow> FormValues_v1 \<Rightarrow> CRQ_v1" where
  \<comment> \<open>\<^verbatim>\<open>{ ...editingCrq, ...data }\<close>\<close>
  "mergeEdit_v1 e d =
     \<lparr>id = (case FormValues_v1.id d of Some i \<Rightarrow> i | None \<Rightarrow> id e),
      sysId = sysId e,
      status = status e,
      reviewer = reviewer e,
      crqNumber = spreadKey (crqNumber e) (FormValues_v1.crqNumber d),
      summary = FormValues_v1.summary d,
      briefDescription = FormValues_v1.briefDescription d,
      purpose = FormValues_v1.purpose d,
      testResults = FormValues_v1.testResults d,
      impactAnalysis = FormValues_v1.impactAnalysis d,
      riskAssessment = FormValues_v1.riskAssessment d,
      implementationPlan = FormValues_v1.implementationPlan d,
      validationPlan = FormValues_v1.validationPlan d,
      backoutPlan = FormValues_v1.backoutPlan d\<rparr>"

definition newCrq_v1 :: "jsString \<Rightarrow> jsString \<Rightarrow> FormValues_v1 \<Rightarrow> CRQ_v1" where
  \<comment> \<open>\<^verbatim>\<open>{ ...data, id: crypto.randomUUID(), sysId: crypto.randomUUID(), status: "Pending" }\<close>\<close>
  "newCrq_v1 u1 u2 d =
     \<lparr>id = u1, sysId = Some u2, status = Pending, reviewer = None,
      crqNumber = keyValue (FormValues_v1.crqNumber d),
      summary = FormValues_v1.summary d,
      briefDescription = FormValues_v1.briefDescription d,
      purpose = FormValues_v1.purpose d,
      testResults = FormValues_v1.testResults d,
      impactAnalysis = FormValues_v1.impactAnalysis d,
      riskAssessment = FormValues_v1.riskAssessment d,
      implementationPlan = FormValues_v1.implementationPlan d,
      validationPlan = FormValues_v1.validationPlan d,
      backoutPlan = FormValues_v1.backoutPlan d\<rparr>"

definition persist_v1 ::
  "(CRQ_v1 list \<Rightarrow> jsString) \<Rightarrow> CRQ_v1 list \<Rightarrow> Dashboard_v1 \<Rightarrow> Dashboard_v1 outcome" where
  \<comment> \<open>\<^verbatim>\<open>localStorage.setItem("crq_list", JSON.stringify(updatedCrqs))\<close>, outside any \<^verbatim>\<open>try\<close>\<close>
  "persist_v1 stringify updatedCrqs s =
     (case setItem (localStorage s) (js ''crq_list'') (stringify updatedCrqs) of
        Inr st \<Rightarrow> Returned (s\<lparr>localStorage := st\<rparr>)
      | Inl e \<Rightarrow> Threw e s)"

definition handleSave_v1 ::
  "(CRQ_v1 list \<Rightarrow> jsString) \<Rightarrow> (nat \<Rightarrow> jsString) \<Rightarrow> FormValues_v1 \<Rightarrow> Dashboard_v1
     \<Rightarrow> Dashboard_v1 outcome" where
  "handleSave_v1 stringify randomUUID d s =
     (let (savedCrq, updatedCrqs, s1) =
        (case editingCrq s of
           Some e \<Rightarrow>
             let savedCrq = mergeEdit_v1 e d in
             (savedCrq, map (\<lambda>crq. if id crq = id e then savedCrq else crq) (crqs s),
              toast_v1 (js ''CRQ Updated'') s)
         | None \<Rightarrow>
             let savedCrq = newCrq_v1 (randomUUID (uuidsDrawn s)) (randomUUID (uuidsDrawn s + 1)) d in
             (savedCrq, crqs s @ [savedCrq],
              toast_v1 (js ''CRQ Submitted'') (s\<lparr>uuidsDrawn := uuidsDrawn s + 2\<rparr>)))
      in andThen (persist_v1 stringify updatedCrqs (s1\<lparr>crqs := updatedCrqs\<rparr>))
           (\<lambda>s2. Returned (s2\<lparr>isFormOpen := False, editingCrq := None,
                               crqToCopy := Some savedCrq, isCopyOpen := True\<rparr>)))"

definition updateCrqStatus_v1 ::
  "(CRQ_v1 list \<Rightarrow> jsString) \<Rightarrow> jsString \<Rightarrow> Status_v1 \<Rightarrow> jsString option \<Rightarrow> Dashboard_v1
     \<Rightarrow> Dashboard_v1 outcome" where
  "updateCrqStatus_v1 stringify i st rv s =
     (let updatedCrqs =
        map (\<lambda>crq. if id crq = i then crq\<lparr>status := st, reviewer := orElse rv (reviewer crq)\<rparr>
                    else crq) (crqs s)
      in andThen (persist_v1 stringify updatedCrqs (s\<lparr>crqs := updatedCrqs\<rparr>))
           (\<lambda>s1. Returned
              (toast_v1 (js ''CRQ status updated to '' @ statusStr_v1 st @ js ''.'') s1)))"

definition handleStatusChange_v1 ::
  "(CRQ_v1 list \<Rightarrow> jsString) \<Rightarrow> CRQ_v1 \<Rightarrow> Status_v1 \<Rightarrow> Dashboard_v1 \<Rightarrow> Dashboard_v1 outcome" where
  "handleStatusChange_v1 stringify crq st s =
     (if (st = Approved \<or> st = Rejected) \<and> \<not> truthy (reviewer crq) then
        Returned (s\<lparr>selectedCrqForReview := Some crq, statusToSetForReview := Some st,
                    isReviewerModalOpen := True\<rparr>)
      else updateCrqStatus_v1 stringify (id crq) st (reviewer crq) s)"

definition handleConfirmReview_v1 ::
  "(CRQ_v1 list \<Rightarrow> jsString) \<Rightarrow> Dashboard_v1 \<Rightarrow> Dashboard_v1 outcome" where
  "handleConfirmReview_v1 stringify s =
     (case (selectedCrqForReview s, statusToSetForReview s) of
        (Some crq, Some st) \<Rightarrow>
          if reviewerName s \<noteq> [] then
            andThen (updateCrqStatus_v1 stringify (id crq) st (Some (reviewerName s)) s)
              (\<lambda>s1. Returned (s1\<lparr>isReviewerModalOpen := False, reviewerName := [],
                                  selectedCrqForReview := None, statusToSetForReview := None\<rparr>))
          else Returned (toast_v1 (js ''Reviewer name is required.'') s)
      | _ \<Rightarrow> Returned (toast_v1 (js ''Reviewer name is required.'') s))"

definition cancelReview_v1 :: "Dashboard_v1 \<Rightarrow> Dashboard_v1 outcome" where
  \<comment> \<open>the \<^verbatim>\<open>onClick\<close> of \<^verbatim>\<open>AlertDialogCancel\<close> in the reviewer prompt\<close>
  "cancelReview_v1 s = Returned (s\<lparr>reviewerName := [], isReviewerModalOpen := False\<rparr>)"

text \<open>
  The early template generator. \<open>fmt\<close> is \<^verbatim>\<open>format(date, "PPP")\<close>: the long date of the start
  date on the calendar of the host's time zone.
\<close>

definition descriptionText_v1 :: "CRQ_v1 \<Rightarrow> jsString" where
  "descriptionText_v1 crq =
     joinStr (NL @ NL @ js ''  '')
       [js ''Brief Description of the change: '' @ NL @ js ''  '' @ briefDescription crq,
        js ''Release notes confluence page: '' @ NL @ js ''  Attached on ServiceNow'',
        js ''Purpose of the change: '' @ NL @ js ''  '' @ purpose crq,
        js ''Test results: '' @ NL @ js ''  '' @
          joinStr (NL @ js ''  '') (testResultLines (testResults crq)),
        js ''Impact Analysis & Communication: '' @ NL @ js ''    '' @
          joinStr (NL @ js ''    '') (impactLines (Some (impactAnalysis crq))),
        js ''Risk Assessment: '' @ NL @ js ''    '' @
          joinStr (NL @ js ''    '')
            [js ''Risk: '' @ riskLevelText (risk (riskAssessment crq)),
             js ''Mitigation Plan: '' @ orNA (mitigationPlan (riskAssessment crq))]]"

definition implementationSection_v1 :: "(Date \<Rightarrow> jsString) \<Rightarrow> CRQ_v1 \<Rightarrow> jsString" where
  "implementationSection_v1 fmt crq =
     trim (joinStr NL
       [[],
        js ''  Implementation Start Date: '' @
          (case implementationStartDate (implementationPlan crq) of
             Some d \<Rightarrow> fmt d | None \<Rightarrow> js ''N/A''),
        js ''  Implementation Time duration: '' @
          orNA (ImplementationPlan.duration (implementationPlan crq)),
        joinStr NL (map applicationText (applications (implementationPlan crq))),
        js ''  Playbook: Attached on ServiceNow'',
        js ''      ''])"

definition validationSection_v1 :: "CRQ_v1 \<Rightarrow> jsString" where
  "validationSection_v1 crq =
     trim (joinStr NL
       [[],
        js ''  Validation Time duration: '' @ orNA (ValidationPlan.duration (validationPlan crq)),
        [],
        js ''  What to monitor during and post deployment:'',
        joinStr NL (map monitoredChangeText (ValidationPlan.monitoredChanges (validationPlan crq))),
        [],
        js ''  When to Rollback: '' @ orNA (whenToRollback (validationPlan crq)),
        js ''  Post deployment attach the validation screenshots and close the CRQ.'',
        js ''      ''])"

definition backoutSection_v1 :: "CRQ_v1 \<Rightarrow> jsString" where
  "backoutSection_v1 crq =
     trim (joinStr NL
       ([[],
         js ''  Is Backout plan tested?: '' @
           (if isTested (backoutPlan crq) then js ''Yes'' else js ''No''),
         [],
         js ''  Changes to Revert:''] @
        revertLines (BackoutPlan.changes (backoutPlan crq)) @
        [[],
         js ''  What to monitor during and after backout:'',
         joinStr NL (map monitoredChangeText (BackoutPlan.monitoredChanges (backoutPlan crq))),
         js ''      '']))"

definition generateCopySections_v1 ::
  "(Date \<Rightarrow> jsString) \<Rightarrow> CRQ_v1 option \<Rightarrow> (jsString \<times> jsString) list" where
  \<comment> \<open>the result object, as its entries in insertion order\<close>
  "generateCopySections_v1 fmt c =
     (case c of
        None \<Rightarrow> []
      | Some crq \<Rightarrow>
          [(js ''Summary'', summary crq),
           (js ''Description'', descriptionText_v1 crq),
           (js ''Implementation plan'', implementationSection_v1 fmt crq),
           (js ''Validation plan'', validationSection_v1 crq),
           (js ''Backout plan'', backoutSection_v1 crq)])"


section \<open>Extended variant (\<^verbatim>\<open>part_000\<close>): types\<close>

datatype Status = Pending | Approved | Declined | Implemented | Closed

fun statusStr :: "Status \<Rightarrow> jsString" where
  "statusStr Pending = js ''Pending''"
| "statusStr Approved = js ''Approved''"
| "statusStr Declined = js ''Declined''"
| "statusStr Implemented = js ''Implemented''"
| "statusStr Closed = js ''Closed''"

record CustomField =
  id :: jsString
  label :: jsString
  group :: jsString

text \<open>
  \<^verbatim>\<open>FormValues\<close>, the output type of \<^verbatim>\<open>formSchema\<close>, as the save handler spreads it. The form
  has no input for \<open>id\<close>: the key is absent on a new form and holds the id of the edited
  record, a string, on an edit. \<open>customData\<close> is the object's indexing: \<open>m k\<close> is what
  \<^verbatim>\<open>customData[k]\<close> yields, printed as a template literal prints it, for own and for
  inherited keys alike.
\<close>

record FormValues =
  id :: "jsString option"
  crqNumber :: "jsString optionalKey"
  summary :: jsString
  deploymentDiffLink :: "jsString optionalKey"
  purpose :: jsString
  comments :: "jsString optionalKey"
  testResults :: TestResults
  impactAnalysis :: "ImpactAnalysis optionalKey"
  riskAssessment :: "RiskAssessment optionalKey"
  implementationPlan :: ImplementationPlan
  validationPlan :: "ValidationPlan optionalKey"
  backoutPlan :: BackoutPlan
  customData :: "(jsString \<rightharpoonup> jsString) optionalKey"

text \<open>\<^verbatim>\<open>type CRQ = FormValues & { id: string; sysId?: string; status: Status; reviewer?: string }\<close>\<close>

record CRQ =
  id :: jsString
  sysId :: "jsString option"
  status :: Status
  reviewer :: "jsString option"
  crqNumber :: "jsString option"
  summary :: jsString
  deploymentDiffLink :: "jsString option"
  purpose :: jsString
  comments :: "jsString option"
  testResults :: TestResults
  impactAnalysis :: "ImpactAnalysis option"
  riskAssessment :: "RiskAssessment option"
  implementationPlan :: ImplementationPlan
  validationPlan :: "ValidationPlan option"
  backoutPlan :: BackoutPlan
  customData :: "(jsString \<rightharpoonup> jsString) option"

section \<open>Extended variant: state and the \<^verbatim>\<open>useLocalStorage\<close> hook\<close>

text \<open>
  The state of \<^verbatim>\<open>DashboardPage\<close>: the \<^verbatim>\<open>useState\<close> cells the handlers below read or
  write, the two cells of \<^verbatim>\<open>useLocalStorage("crq_list_v3", [])\<close> (\<open>crqs\<close> is its
  \<^verbatim>\<open>storedValue\<close>), and the browser: storage, console, toasts shown, UUIDs drawn.
\<close>

record Dashboard =
  crqs :: "CRQ list"
  isInitialized :: bool
  isFormOpen :: bool
  isCopyOpen :: bool
  editingCrq :: "CRQ option"
  crqToCopy :: "CRQ option"
  crqNumberFilter :: jsString
  summaryFilter :: jsString
  statusFilter :: jsString
  riskFilter :: jsString
  dateFilter :: "Date option"
  reviewerFilter :: jsString
  isReviewerModalOpen :: bool
  reviewerName :: jsString
  selectedCrqForReview :: "CRQ option"
  statusToSetForReview :: "Status option"
  isExportModalOpen :: bool
  customFields :: "CustomField list"
  localStorage :: LocalStorage
  console :: "LogEntry list"
  toasts :: "jsString list"
  uuidsDrawn :: nat

definition toast :: "jsString \<Rightarrow> Dashboard \<Rightarrow> Dashboard" where
  "toast title s = s\<lparr>toasts := toasts s @ [title]\<rparr>"

text \<open>
  The first effect of \<^verbatim>\<open>useLocalStorage\<close>. \<^verbatim>\<open>JSON.parse\<close> is a parameter: \<^term>\<open>None\<close>
  is its \<^verbatim>\<open>SyntaxError\<close>, and a parsed value is taken for the \<^verbatim>\<open>CRQ[]\<close> the hook's
  type says it is.
\<close>

definition readEffect :: "(jsString \<Rightarrow> CRQ list option) \<Rightarrow> Dashboard \<Rightarrow> Dashboard outcome" where
  "readEffect parse s =
     (let s1 =
        (case getItem (localStorage s) (js ''crq_list_v3'') of
           None \<Rightarrow> s
         | Some item \<Rightarrow>
             if item = [] then s
             else (case parse item of
                     Some v \<Rightarrow> s\<lparr>crqs := v\<rparr>
                   | None \<Rightarrow> s\<lparr>console := console s @ [ErrorReading (js ''crq_list_v3'')]\<rparr>))
      in Returned (s1\<lparr>isInitialized := True\<rparr>))"

text \<open>The second effect: it runs after a render in which \<open>crqs\<close> or \<open>isInitialized\<close> changed.\<close>

definition writeEffect :: "(CRQ list \<Rightarrow> jsString) \<Rightarrow> Dashboard \<Rightarrow> Dashboard outcome" where
  "writeEffect stringify s =
     (if isInitialized s then
        (case setItem (localStorage s) (js ''crq_list_v3'') (stringify (crqs s)) of
           Inr st \<Rightarrow> Returned (s\<lparr>localStorage := st\<rparr>)
         | Inl e \<Rightarrow> Returned (s\<lparr>console := console s @ [ErrorSetting (js ''crq_list_v3'')]\<rparr>))
      else Returned s)"

definition initialDashboard :: "LocalStorage \<Rightarrow> Dashboard" where
  "initialDashboard st =
     \<lparr>crqs = [], isInitialized = False, isFormOpen = False, isCopyOpen = False,
      editingCrq = None, crqToCopy = None, crqNumberFilter = [], summaryFilter = [],
      statusFilter = js ''All'', riskFilter = js ''All'', dateFilter = None, reviewerFilter = [],
      isReviewerModalOpen = False, reviewerName = [], selectedCrqForReview = None,
      statusToSetForReview = None, isExportModalOpen = False, customFields = [],
      localStorage = st, console = [], toasts = [], uuidsDrawn = 0\<rparr>"

definition load :: "(jsString \<Rightarrow> CRQ list option) \<Rightarrow> LocalStorage \<Rightarrow> Dashboard outcome" where
  \<comment> \<open>mounting the page: the read effect on the initial state\<close>
  "load parse st = readEffect parse (initialDashboard st)"

section \<open>Extended variant: handlers\<close>

definition mergeEdit :: "CRQ \<Rightarrow> FormValues \<Rightarrow> CRQ" where
  \<comment> \<open>\<^verbatim>\<open>{ ...editingCrq, ...data, status: "Pending", reviewer: undefined }\<close>\<close>
  "mergeEdit e d =
     \<lparr>id = (case FormValues.id d of Some i \<Rightarrow> i | None \<Rightarrow> id e),
      sysId = sysId e,
      status = Pending,
      reviewer = None,
      crqNumber = spreadKey (crqNumber e) (FormValues.crqNumber d),
      summary = FormValues.summary d,
      deploymentDiffLink = spreadKey (deploymentDiffLink e) (FormValues.deploymentDiffLink d),
      purpose = FormValues.purpose d,
      comments = spreadKey (comments e) (FormValues.comments d),
      testResults = FormValues.testResults d,
      impactAnalysis = spreadKey (impactAnalysis e) (FormValues.impactAnalysis d),
      riskAssessment = spreadKey (riskAssessment e) (FormValues.riskAssessment d),
      implementationPlan = FormValues.implementationPlan d,
      validationPlan = spreadKey (validationPlan e) (FormValues.validationPlan d),
      backoutPlan = FormValues.backoutPlan d,
      customData = spreadKey (customData e) (FormValues.customData d)\<rparr>"

definition newCrq :: "jsString \<Rightarrow> jsString \<Rightarrow> FormValues \<Rightarrow> CRQ" where
  \<comment> \<open>\<^verbatim>\<open>{ ...data, id: crypto.randomUUID(), sysId: crypto.randomUUID(), status: "Pending" }\<close>\<close>
  "newCrq u1 u2 d =
     \<lparr>id = u1, sysId = Some u2, status = Pending, reviewer = None,
      crqNumber = keyValue (FormValues.crqNumber d),
      summary = FormValues.summary d,
      deploymentDiffLink = keyValue (FormValues.deploymentDiffLink d),
      purpose = FormValues.purpose d,
      comments = keyValue (FormValues.comments d),
      testResults = FormValues.testResults d,
      impactAnalysis = keyValue (FormValues.impactAnalysis d),
      riskAssessment = keyValue (FormValues.riskAssessment d),
      implementationPlan = FormValues.implementationPlan d,
      validationPlan = keyValue (FormValues.validationPlan d),
      backoutPlan = FormValues.backoutPlan d,
      customData = keyValue (FormValues.customData d)\<rparr>"

definition handleSave :: "(nat \<Rightarrow> jsString) \<Rightarrow> FormValues \<Rightarrow> Dashboard \<Rightarrow> Dashboard outcome" where
  "handleSave randomUUID d s =
     (let (savedCrq, updatedCrqs, s1) =
        (case editingCrq s of
           Some e \<Rightarrow>
             let savedCrq = mergeEdit e d in
             (savedCrq, map (\<lambda>crq. if id crq = id e then savedCrq else crq) (crqs s),
              toast (js ''CRQ Updated'') s)
         | None \<Rightarrow>
             let savedCrq = newCrq (randomUUID (uuidsDrawn s)) (randomUUID (uuidsDrawn s + 1)) d in
             (savedCrq, crqs s @ [savedCrq],
              toast (js ''CRQ Submitted'') (s\<lparr>uuidsDrawn := uuidsDrawn s + 2\<rparr>)))
      in Returned (s1\<lparr>crqs := updatedCrqs, isFormOpen := False, editingCrq := None,
                      crqToCopy := Some savedCrq, isCopyOpen := True\<rparr>))"

definition updateCrqStatus ::
  "jsString \<Rightarrow> Status \<Rightarrow> jsString option \<Rightarrow> Dashboard \<Rightarrow> Dashboard outcome" where
  "updateCrqStatus i st rv s =
     (let updatedCrqs =
        map (\<lambda>crq. if id crq = i then crq\<lparr>status := st, reviewer := orElse rv (reviewer crq)\<rparr>
                    else crq) (crqs s)
      in Returned (toast (js ''CRQ status updated to '' @ statusStr st @ js ''.'')
                     (s\<lparr>crqs := updatedCrqs\<rparr>)))"

definition handleStatusChange :: "CRQ \<Rightarrow> Status \<Rightarrow> Dashboard \<Rightarrow> Dashboard outcome" where
  "handleStatusChange crq st s =
     (if (st = Approved \<or> st = Declined) \<and> \<not> truthy (reviewer crq) then
        Returned (s\<lparr>selectedCrqForReview := Some crq, statusToSetForReview := Some st,
                    isReviewerModalOpen := True\<rparr>)
      else updateCrqStatus (id crq) st (reviewer crq) s)"

definition handleConfirmReview :: "Dashboard \<Rightarrow> Dashboard outcome" where
  "handleConfirmReview s =
     (case (selectedCrqForReview s, statusToSetForReview s) of
        (Some crq, Some st) \<Rightarrow>
          if reviewerName s \<noteq> [] then
            andThen (updateCrqStatus (id crq) st (Some (reviewerName s)) s)
              (\<lambda>s1. Returned (s1\<lparr>isReviewerModalOpen := False, reviewerName := [],
                                  selectedCrqForReview := None, statusToSetForReview := None\<rparr>))
          else Returned (toast (js ''Reviewer name is required.'') s)
      | _ \<Rightarrow> Returned (toast (js ''Reviewer name is required.'') s))"

definition cancelReview :: "Dashboard \<Rightarrow> Dashboard outcome" where
  \<comment> \<open>the \<^verbatim>\<open>onClick\<close> of \<^verbatim>\<open>AlertDialogCancel\<close> in the reviewer prompt\<close>
  "cancelReview s = Returned (s\<lparr>reviewerName := [], isReviewerModalOpen := False\<rparr>)"

section \<open>Extended variant: template generator\<close>












section \<open>Extended variant: filters and export\<close>

definition matchesText :: "(jsString \<Rightarrow> jsString) \<Rightarrow> jsString \<Rightarrow> jsString option \<Rightarrow> bool" where
  \<comment> \<open>\<^verbatim>\<open>!f || v?.toLowerCase().includes(f.toLowerCase())\<close>\<close>
  "matchesText lower f v =
     (f = [] \<or> (case v of None \<Rightarrow> False | Some t \<Rightarrow> includesStr (lower t) (lower f)))"

definition crqRisk :: "CRQ \<Rightarrow> Risk option" where
  \<comment> \<open>\<^verbatim>\<open>crq.riskAssessment?.risk\<close>\<close>
  "crqRisk crq = Option.bind (riskAssessment crq) risk"

definition matchesStatus :: "jsString \<Rightarrow> CRQ \<Rightarrow> bool" where
  "matchesStatus f crq = (f = js ''All'' \<or> statusStr (status crq) = f)"

definition matchesRisk :: "jsString \<Rightarrow> CRQ \<Rightarrow> bool" where
  "matchesRisk f crq =
     (f = js ''All'' \<or> (case crqRisk crq of None \<Rightarrow> False | Some r \<Rightarrow> riskStr r = f))"

definition matchesDate :: "(Date \<Rightarrow> jsString) \<Rightarrow> Date option \<Rightarrow> CRQ \<Rightarrow> bool" where
  \<comment> \<open>\<open>fmt\<close> is \<^verbatim>\<open>format(date, 'yyyy-MM-dd')\<close>\<close>
  "matchesDate fmt f crq =
     (case f of
        None \<Rightarrow> True
      | Some d \<Rightarrow>
          (case implementationStartDate (implementationPlan crq) of
             None \<Rightarrow> False
           | Some crqDate \<Rightarrow> fmt crqDate = fmt d))"

definition filteredCrqs ::
  "(jsString \<Rightarrow> jsString) \<Rightarrow> (Date \<Rightarrow> jsString) \<Rightarrow> Dashboard \<Rightarrow> CRQ list" where
  "filteredCrqs lower fmt s =
     filter (matchesDate fmt (dateFilter s))
       (filter (\<lambda>crq. matchesText lower (reviewerFilter s) (reviewer crq))
          (filter (matchesRisk (riskFilter s))
             (filter (matchesStatus (statusFilter s))
                (filter (\<lambda>crq. matchesText lower (summaryFilter s) (Some (summary crq)))
                   (filter (\<lambda>crq. matchesText lower (crqNumberFilter s) (crqNumber crq))
                      (crqs s))))))"

definition DASHBOARD_COLUMNS :: "(jsString \<times> jsString) list" where
  "DASHBOARD_COLUMNS =
     [(js ''crqNumber'', js ''CRQ Number''), (js ''summary'', js ''Summary''),
      (js ''risk'', js ''Risk''), (js ''status'', js ''Status''),
      (js ''implementationDate'', js ''Implementation Date''),
      (js ''reviewer'', js ''Reviewer'')]"

definition exportRow ::
  "(Date \<Rightarrow> jsString) \<Rightarrow> jsString list \<Rightarrow> CRQ \<Rightarrow> (jsString \<times> jsString) list" where
  \<comment> \<open>the row object of \<^verbatim>\<open>handleExport\<close>, as its entries in insertion order\<close>
  "exportRow fmt columnsToExport crq =
     (if js ''crqNumber'' \<in> set columnsToExport
      then [(js ''CRQ Number'', orNA (crqNumber crq))] else []) @
     (if js ''summary'' \<in> set columnsToExport then [(js ''Summary'', summary crq)] else []) @
     (if js ''risk'' \<in> set columnsToExport
      then [(js ''Risk'', riskLevelText (crqRisk crq))] else []) @
     (if js ''status'' \<in> set columnsToExport
      then [(js ''Status'', statusStr (status crq))] else []) @
     (if js ''implementationDate'' \<in> set columnsToExport
      then [(js ''Implementation Date'',
             (case implementationStartDate (implementationPlan crq) of
                Some d \<Rightarrow> fmt d | None \<Rightarrow> js ''N/A''))] else []) @
     (if js ''reviewer'' \<in> set columnsToExport
      then [(js ''Reviewer'', orNA (reviewer crq))] else [])"

definition handleExport ::
  "(jsString \<Rightarrow> jsString) \<Rightarrow> (Date \<Rightarrow> jsString) \<Rightarrow> jsString list \<Rightarrow> Dashboard
     \<Rightarrow> (jsString \<times> jsString) list list \<times> Dashboard" where
  \<comment> \<open>the rows handed to \<^verbatim>\<open>XLSX.utils.json_to_sheet\<close>, and the state afterwards\<close>
  "handleExport lower fmt columnsToExport s =
     (map (exportRow fmt columnsToExport) (filteredCrqs lower fmt s),
      (toast (js ''Export Successful'') s)\<lparr>isExportModalOpen := False\<rparr>)"

section \<open>The template as the specification words it\<close>














section \<open>Example records\<close>

definition sampleCrq :: CRQ where
  \<comment> \<open>a record as the empty form saves it, with a summary and a purpose typed in\<close>
  "sampleCrq =
     \<lparr>id = js ''id-1'', sysId = Some (js ''sys-1''), status = Pending, reviewer = None,
      crqNumber = None, summary = js ''Upgrade gateway'', deploymentDiffLink = Some [],
      purpose = js ''Bug fix'', comments = Some [],
      testResults = \<lparr>functional = False, regression = False, performance = False\<rparr>,
      impactAnalysis = None,
      riskAssessment = Some \<lparr>risk = Some Low, mitigationPlan = None\<rparr>,
      implementationPlan =
        \<lparr>implementationStartDate = None, duration = None, applications = [sampleApplication]\<rparr>,
      validationPlan = Some sampleValidation,
      backoutPlan = sampleBackout,
      customData = None\<rparr>"

definition sampleForm :: FormValues where
  "sampleForm =
     \<lparr>FormValues.id = Some (js ''id-1''), crqNumber = Present (js ''CRQ123456''),
      summary = js ''Upgrade gateway to 2.1'',
      deploymentDiffLink = Undefined, purpose = js ''Bug fix'', comments = Absent,
      testResults = \<lparr>functional = True, regression = False, performance = False\<rparr>,
      impactAnalysis = Absent,
      riskAssessment = Present \<lparr>risk = Some High, mitigationPlan = None\<rparr>,
      implementationPlan =
        \<lparr>implementationStartDate = None, duration = None, applications = [sampleApplication]\<rparr>,
      validationPlan = Present sampleValidation,
      backoutPlan = sampleBackout,
      customData = Absent\<rparr>"

definition emptyStorage :: LocalStorage where
  "emptyStorage = \<lparr>items = Map.empty, quotaExceeded = False\<rparr>"

definition sampleDashboard :: "CRQ list \<Rightarrow> Dashboard" where
  \<comment> \<open>the page after loading, holding the given records\<close>
  "sampleDashboard cs = (initialDashboard emptyStorage)\<lparr>crqs := cs, isInitialized := True\<rparr>"

section \<open>Strings: literals, substrings, joining, trimming\<close>

lemma js_eq_iff [simp]: "js a = js b \<longleftrightarrow> a = b"
  by (simp add: js_def inj_of_char)

lemma js_eq_Nil [simp]: "js a = [] \<longleftrightarrow> a = []" "[] = js a \<longleftrightarrow> a = []"
  by (auto simp: js_def)

lemma startsWith_iff_prefix: "startsWith s t \<longleftrightarrow> prefix t s"
  by (induction s t rule: startsWith.induct) auto

lemma includesStr_iff_sublist: "includesStr s t \<longleftrightarrow> sublist t s"
  by (induction s) (auto simp: startsWith_iff_prefix sublist_Cons_right)



lemma sublist_middle: "sublist x (p @ x @ r)"
  unfolding sublist_def by blast









lemma letter_not_whitespace: "0x21 \<le> c \<Longrightarrow> c \<le> 0x7E \<Longrightarrow> \<not> isWhitespace c"
  by (auto simp: isWhitespace_def)

section \<open>Dates on two hosts\<close>



lemma sampleStart_ISO:
  "formatISODay (\<lambda>d. 0) sampleStart = js ''2025-03-01''"
  "formatISODay (\<lambda>d. 0) (sampleStart + 3600000) = js ''2025-03-01''"
  "formatISODay (\<lambda>d. 0) (sampleStart - 1) = js ''2025-02-28''"
  by code_simp+

section \<open>Example states\<close>

lemma orElse_falsy: "\<not> truthy rv \<Longrightarrow> orElse rv x = x"
  by (simp add: orElse_def)

lemma sampleDashboard_crqs: "crqs (sampleDashboard cs) = cs"
  by (simp add: sampleDashboard_def)

lemma filteredCrqs_sampleDashboard: "filteredCrqs lower fmt (sampleDashboard cs) = cs"
  by (simp add: filteredCrqs_def sampleDashboard_def initialDashboard_def matchesText_def
      matchesStatus_def matchesRisk_def matchesDate_def)

section \<open>Status machine\<close>

text \<open>
  C1. Asking for Approved or Declined on a record without a reviewer (whatever its status,
  Pending included) returns without touching the record list or browser storage and opens the
  reviewer prompt. From there, whatever name was typed: confirming an empty name only shows a
  notification; cancelling changes neither the list nor storage; and only confirming a
  non-empty name rewrites the list, setting the status and that name on the matching record.
\<close>

theorem review_prompt_defers_store_mutation:
  assumes "\<not> truthy (reviewer crq)" and "st = Approved \<or> st = Declined"
  shows "let s1 = finalState (handleStatusChange crq st s) in
         handleStatusChange crq st s = Returned s1 \<and>
         crqs s1 = crqs s \<and> localStorage s1 = localStorage s \<and> isReviewerModalOpen s1 \<and>
         (\<forall>nm. let s2 = s1\<lparr>reviewerName := nm\<rparr> in
            (nm = [] \<longrightarrow>
               handleConfirmReview s2 = Returned (toast (js ''Reviewer name is required.'') s2) \<and>
               crqs (finalState (handleConfirmReview s2)) = crqs s \<and>
               localStorage (finalState (handleConfirmReview s2)) = localStorage s) \<and>
            (nm \<noteq> [] \<longrightarrow>
               crqs (finalState (handleConfirmReview s2))
                 = map (\<lambda>c. if CRQ.id c = CRQ.id crq
                              then c\<lparr>status := st, reviewer := Some nm\<rparr> else c) (crqs s)) \<and>
            cancelReview s2 = Returned (finalState (cancelReview s2)) \<and>
            crqs (finalState (cancelReview s2)) = crqs s \<and>
            localStorage (finalState (cancelReview s2)) = localStorage s)"
  using assms
  by (auto simp: handleStatusChange_def handleConfirmReview_def cancelReview_def finalState_def
      updateCrqStatus_def andThen_def toast_def orElse_def truthy_def Let_def)

theorem review_prompt_defers_store_mutation_witness:
  "\<not> truthy (reviewer sampleCrq) \<and> status sampleCrq = Pending \<and>
   crqs (finalState (handleStatusChange sampleCrq Approved (sampleDashboard [sampleCrq])))
     = [sampleCrq] \<and>
   crqs (finalState (handleConfirmReview
      ((finalState (handleStatusChange sampleCrq Approved (sampleDashboard [sampleCrq])))
         \<lparr>reviewerName := []\<rparr>))) = [sampleCrq] \<and>
   crqs (finalState (cancelReview
      ((finalState (handleStatusChange sampleCrq Approved (sampleDashboard [sampleCrq])))
         \<lparr>reviewerName := js ''Ann''\<rparr>))) = [sampleCrq] \<and>
   crqs (finalState (handleConfirmReview
      ((finalState (handleStatusChange sampleCrq Approved (sampleDashboard [sampleCrq])))
         \<lparr>reviewerName := js ''Ann''\<rparr>))) = [sampleCrq\<lparr>status := Approved, reviewer := Some (js ''Ann'')\<rparr>]"
proof -
  have h: "\<not> truthy (reviewer sampleCrq)" "status sampleCrq = Pending"
    by (simp_all add: sampleCrq_def truthy_def)
  have g: "Approved = Approved \<or> Approved = Declined" by simp
  let ?s = "sampleDashboard [sampleCrq]"
  let ?s1 = "finalState (handleStatusChange sampleCrq Approved ?s)"
  note t = review_prompt_defers_store_mutation[OF h(1) g, of ?s, unfolded Let_def]
  from t have a: "crqs ?s1 = crqs ?s"
    by blast
  from t have b: "crqs (finalState (handleConfirmReview (?s1\<lparr>reviewerName := []\<rparr>))) = crqs ?s"
    by blast
  from t have c: "crqs (finalState (cancelReview (?s1\<lparr>reviewerName := js ''Ann''\<rparr>))) = crqs ?s"
    by blast
  have ne: "js ''Ann'' \<noteq> []" by simp
  from t ne have d: "crqs (finalState (handleConfirmReview (?s1\<lparr>reviewerName := js ''Ann''\<rparr>)))
       = map (\<lambda>c. if CRQ.id c = CRQ.id sampleCrq
                    then c\<lparr>status := Approved, reviewer := Some (js ''Ann'')\<rparr> else c) (crqs ?s)"
    by blast
  show ?thesis
    unfolding a b c d using h by (simp add: sampleDashboard_crqs)
qed

text \<open>
  C2. In the extended variant, saving the form while a record is being edited replaces every
  stored record carrying the edited record's id by the merged record, whose status is Pending
  and whose reviewer is absent, whatever status and reviewer the record had; the other records
  stay as they are.
\<close>

theorem edit_resets_status_and_reviewer:
  assumes "editingCrq s = Some e"
  shows "handleSave randomUUID d s = Returned (finalState (handleSave randomUUID d s)) \<and>
         length (crqs (finalState (handleSave randomUUID d s))) = length (crqs s) \<and>
         (\<forall>k < length (crqs s).
            if CRQ.id (crqs s ! k) = CRQ.id e
            then crqs (finalState (handleSave randomUUID d s)) ! k = mergeEdit e d \<and>
                 status (crqs (finalState (handleSave randomUUID d s)) ! k) = Pending \<and>
                 reviewer (crqs (finalState (handleSave randomUUID d s)) ! k) = None
            else crqs (finalState (handleSave randomUUID d s)) ! k = crqs s ! k)"
  using assms
  by (auto simp: handleSave_def finalState_def toast_def mergeEdit_def Let_def)

theorem edit_resets_status_and_reviewer_witness:
  "status (crqs (finalState (handleSave (\<lambda>n. js ''u'') sampleForm
      ((sampleDashboard [sampleCrq\<lparr>status := Approved, reviewer := Some (js ''Ann'')\<rparr>])
         \<lparr>editingCrq := Some (sampleCrq\<lparr>status := Approved, reviewer := Some (js ''Ann'')\<rparr>)\<rparr>))) ! 0)
     = Pending \<and>
   reviewer (crqs (finalState (handleSave (\<lambda>n. js ''u'') sampleForm
      ((sampleDashboard [sampleCrq\<lparr>status := Approved, reviewer := Some (js ''Ann'')\<rparr>])
         \<lparr>editingCrq := Some (sampleCrq\<lparr>status := Approved, reviewer := Some (js ''Ann'')\<rparr>)\<rparr>))) ! 0)
     = None"
proof -
  let ?e = "sampleCrq\<lparr>status := Approved, reviewer := Some (js ''Ann'')\<rparr>"
  let ?s = "(sampleDashboard [?e])\<lparr>editingCrq := Some ?e\<rparr>"
  have h: "editingCrq ?s = Some ?e" by simp
  have k: "0 < length (crqs ?s)" "CRQ.id (crqs ?s ! 0) = CRQ.id ?e"
    by (simp_all add: sampleDashboard_crqs)
  from edit_resets_status_and_reviewer[OF h, of "\<lambda>n. js ''u''" sampleForm] k
  show ?thesis by (metis (no_types, lifting))
qed

text \<open>
  C5. A status update returns, keeps the length and order of the record list, leaves every
  record with another id as it was, changes nothing but \<open>status\<close> and \<open>reviewer\<close> on a
  record with the given id, and leaves the whole list as it was when no record has that id.
\<close>

theorem updateCrqStatus_frame:
  "updateCrqStatus i st rv s = Returned (finalState (updateCrqStatus i st rv s)) \<and>
   length (crqs (finalState (updateCrqStatus i st rv s))) = length (crqs s) \<and>
   (\<forall>k < length (crqs s).
      (CRQ.id (crqs s ! k) \<noteq> i \<longrightarrow>
         crqs (finalState (updateCrqStatus i st rv s)) ! k = crqs s ! k) \<and>
      (crqs (finalState (updateCrqStatus i st rv s)) ! k)
         \<lparr>status := status (crqs s ! k), reviewer := reviewer (crqs s ! k)\<rparr> = crqs s ! k) \<and>
   ((\<forall>c \<in> set (crqs s). CRQ.id c \<noteq> i) \<longrightarrow>
      crqs (finalState (updateCrqStatus i st rv s)) = crqs s)"
  by (auto simp: updateCrqStatus_def finalState_def toast_def Let_def map_idI)

theorem updateCrqStatus_frame_witness:
  "crqs (finalState (updateCrqStatus (js ''id-2'') Approved (Some (js ''Ann''))
      (sampleDashboard [sampleCrq, sampleCrq\<lparr>CRQ.id := js ''id-2''\<rparr>]))) ! 0 = sampleCrq \<and>
   (crqs (finalState (updateCrqStatus (js ''id-2'') Approved (Some (js ''Ann''))
      (sampleDashboard [sampleCrq, sampleCrq\<lparr>CRQ.id := js ''id-2''\<rparr>]))) ! 1)
      \<lparr>status := Pending, reviewer := None\<rparr> = sampleCrq\<lparr>CRQ.id := js ''id-2''\<rparr> \<and>
   crqs (finalState (updateCrqStatus (js ''id-9'') Approved (Some (js ''Ann''))
      (sampleDashboard [sampleCrq, sampleCrq\<lparr>CRQ.id := js ''id-2''\<rparr>])))
     = [sampleCrq, sampleCrq\<lparr>CRQ.id := js ''id-2''\<rparr>]"
proof -
  let ?s = "sampleDashboard [sampleCrq, sampleCrq\<lparr>CRQ.id := js ''id-2''\<rparr>]"
  have c: "crqs ?s = [sampleCrq, sampleCrq\<lparr>CRQ.id := js ''id-2''\<rparr>]"
    by (rule sampleDashboard_crqs)
  have k0: "0 < length (crqs ?s)" "CRQ.id (crqs ?s ! 0) \<noteq> js ''id-2''"
    unfolding c by (simp_all add: sampleCrq_def)
  have k1: "1 < length (crqs ?s)" unfolding c by simp
  have none: "\<forall>c \<in> set (crqs ?s). CRQ.id c \<noteq> js ''id-9''"
    unfolding c by (simp add: sampleCrq_def)
  note t = updateCrqStatus_frame[of "js ''id-2''" Approved "Some (js ''Ann'')" ?s]
  from t k0 have a: "crqs (finalState (updateCrqStatus (js ''id-2'') Approved (Some (js ''Ann'')) ?s)) ! 0
      = crqs ?s ! 0" by blast
  from t k1 have b: "(crqs (finalState (updateCrqStatus (js ''id-2'') Approved (Some (js ''Ann'')) ?s)) ! 1)
      \<lparr>status := status (crqs ?s ! 1), reviewer := reviewer (crqs ?s ! 1)\<rparr> = crqs ?s ! 1"
    by blast
  from updateCrqStatus_frame[of "js ''id-9''" Approved "Some (js ''Ann'')" ?s] none
  have d: "crqs (finalState (updateCrqStatus (js ''id-9'') Approved (Some (js ''Ann'')) ?s)) = crqs ?s"
    by blast
  from a[unfolded c] b[unfolded c] d[unfolded c] show ?thesis by (simp add: sampleCrq_def)
qed

text \<open>
  C10. A status update never clears a reviewer. Called with an absent or empty reviewer it
  leaves every record's reviewer as it was; a record's reviewer changes only to a non-empty
  argument; a reviewer that is set stays set; and marking a stored record Implemented or
  Closed from its row keeps that record's reviewer.
\<close>

theorem updateCrqStatus_keeps_reviewer:
  "(\<not> truthy rv \<longrightarrow>
      map reviewer (crqs (finalState (updateCrqStatus i st rv s))) = map reviewer (crqs s)) \<and>
   (\<forall>k < length (crqs s).
      (truthy (reviewer (crqs s ! k)) \<longrightarrow>
         truthy (reviewer (crqs (finalState (updateCrqStatus i st rv s)) ! k))) \<and>
      (reviewer (crqs (finalState (updateCrqStatus i st rv s)) ! k) \<noteq> reviewer (crqs s ! k) \<longrightarrow>
         truthy rv \<and> reviewer (crqs (finalState (updateCrqStatus i st rv s)) ! k) = rv) \<and>
      (\<forall>st'. st' = Implemented \<or> st' = Closed \<longrightarrow>
         reviewer (crqs (finalState (handleStatusChange (crqs s ! k) st' s)) ! k)
           = reviewer (crqs s ! k)))"
  by (auto simp: updateCrqStatus_def handleStatusChange_def finalState_def toast_def Let_def
      orElse_def)

theorem updateCrqStatus_keeps_reviewer_witness:
  "map reviewer (crqs (finalState (updateCrqStatus (js ''id-1'') Implemented None
      (sampleDashboard [sampleCrq\<lparr>status := Approved, reviewer := Some (js ''Ann'')\<rparr>]))))
     = [Some (js ''Ann'')] \<and>
   map reviewer (crqs (finalState (updateCrqStatus (js ''id-1'') Implemented (Some [])
      (sampleDashboard [sampleCrq\<lparr>status := Approved, reviewer := Some (js ''Ann'')\<rparr>]))))
     = [Some (js ''Ann'')] \<and>
   reviewer (crqs (finalState (handleStatusChange
      (sampleCrq\<lparr>status := Approved, reviewer := Some (js ''Ann'')\<rparr>) Closed
      (sampleDashboard [sampleCrq\<lparr>status := Approved, reviewer := Some (js ''Ann'')\<rparr>]))) ! 0)
     = Some (js ''Ann'')"
proof -
  let ?c = "sampleCrq\<lparr>status := Approved, reviewer := Some (js ''Ann'')\<rparr>"
  let ?s = "sampleDashboard [?c]"
  have c: "crqs ?s = [?c]" by (rule sampleDashboard_crqs)
  have f: "\<not> truthy None" "\<not> truthy (Some [])" by (simp_all add: truthy_def)
  have k: "0 < length (crqs ?s)" unfolding c by simp
  from updateCrqStatus_keeps_reviewer[of None "js ''id-1''" Implemented ?s] f(1)
  have a: "map reviewer (crqs (finalState (updateCrqStatus (js ''id-1'') Implemented None ?s)))
      = map reviewer (crqs ?s)" by blast
  from updateCrqStatus_keeps_reviewer[of "Some []" "js ''id-1''" Implemented ?s] f(2)
  have b: "map reviewer (crqs (finalState (updateCrqStatus (js ''id-1'') Implemented (Some []) ?s)))
      = map reviewer (crqs ?s)" by blast
  from updateCrqStatus_keeps_reviewer[of None "js ''id-1''" Implemented ?s] k
  have "reviewer (crqs (finalState (handleStatusChange (crqs ?s ! 0) Closed ?s)) ! 0)
      = reviewer (crqs ?s ! 0)" by blast
  then have d: "reviewer (crqs (finalState (handleStatusChange ?c Closed ?s)) ! 0) = reviewer ?c"
    unfolding c by simp
  from a[unfolded c] b[unfolded c] d show ?thesis by simp
qed

section \<open>Early variant: the same status machine\<close>

text \<open>
  The early page asks for the reviewer in the same way (its second status is Rejected), and
  its status update rewrites the record list in the same way before it writes to storage:
  the list it leaves is the same whether or not that write throws.
\<close>

lemma review_prompt_defers_store_mutation_v1:
  assumes "\<not> truthy (CRQ_v1.reviewer crq)" and "st = Status_v1.Approved \<or> st = Rejected"
  shows "let s1 = finalState (handleStatusChange_v1 stringify crq st s) in
         handleStatusChange_v1 stringify crq st s = Returned s1 \<and>
         Dashboard_v1.crqs s1 = Dashboard_v1.crqs s \<and>
         Dashboard_v1.localStorage s1 = Dashboard_v1.localStorage s \<and>
         Dashboard_v1.isReviewerModalOpen s1 \<and>
         (\<forall>nm. let s2 = s1\<lparr>Dashboard_v1.reviewerName := nm\<rparr> in
            (nm = [] \<longrightarrow>
               handleConfirmReview_v1 stringify s2
                 = Returned (toast_v1 (js ''Reviewer name is required.'') s2)) \<and>
            cancelReview_v1 s2 = Returned (finalState (cancelReview_v1 s2)) \<and>
            Dashboard_v1.crqs (finalState (cancelReview_v1 s2)) = Dashboard_v1.crqs s \<and>
            Dashboard_v1.localStorage (finalState (cancelReview_v1 s2))
              = Dashboard_v1.localStorage s)"
  using assms
  by (auto simp: handleStatusChange_v1_def handleConfirmReview_v1_def cancelReview_v1_def
      finalState_def toast_v1_def truthy_def Let_def)

lemma updateCrqStatus_v1_list:
  "Dashboard_v1.crqs (finalState (updateCrqStatus_v1 stringify i st rv s))
     = map (\<lambda>crq. if CRQ_v1.id crq = i
                   then crq\<lparr>CRQ_v1.status := st, CRQ_v1.reviewer := orElse rv (CRQ_v1.reviewer crq)\<rparr>
                   else crq) (Dashboard_v1.crqs s)"
  by (simp add: updateCrqStatus_v1_def persist_v1_def andThen_def finalState_def toast_v1_def
      setItem_def Let_def)

lemma updateCrqStatus_v1_frame:
  "length (Dashboard_v1.crqs (finalState (updateCrqStatus_v1 stringify i st rv s)))
     = length (Dashboard_v1.crqs s) \<and>
   (\<forall>k < length (Dashboard_v1.crqs s).
      (CRQ_v1.id (Dashboard_v1.crqs s ! k) \<noteq> i \<longrightarrow>
         Dashboard_v1.crqs (finalState (updateCrqStatus_v1 stringify i st rv s)) ! k
           = Dashboard_v1.crqs s ! k) \<and>
      (Dashboard_v1.crqs (finalState (updateCrqStatus_v1 stringify i st rv s)) ! k)
         \<lparr>CRQ_v1.status := CRQ_v1.status (Dashboard_v1.crqs s ! k),
          CRQ_v1.reviewer := CRQ_v1.reviewer (Dashboard_v1.crqs s ! k)\<rparr>
        = Dashboard_v1.crqs s ! k \<and>
      (truthy (CRQ_v1.reviewer (Dashboard_v1.crqs s ! k)) \<longrightarrow>
         truthy (CRQ_v1.reviewer
           (Dashboard_v1.crqs (finalState (updateCrqStatus_v1 stringify i st rv s)) ! k)))) \<and>
   (\<not> truthy rv \<longrightarrow>
      map CRQ_v1.reviewer (Dashboard_v1.crqs (finalState (updateCrqStatus_v1 stringify i st rv s)))
        = map CRQ_v1.reviewer (Dashboard_v1.crqs s))"
  unfolding updateCrqStatus_v1_list by (auto simp: orElse_def)

section \<open>Persistence\<close>

text \<open>
  C7. Loading at startup always returns (it never throws), in both variants. When the key is
  absent the record list is empty and nothing is logged. When the stored string is not parsed
  (it is empty, which the page treats like an absent key, or \<^verbatim>\<open>JSON.parse\<close> rejects it) the
  record list is empty as well, and a rejected string is logged as one console error.
\<close>

theorem load_without_prior_data:
  "load parse st = Returned (finalState (load parse st)) \<and>
   load_v1 parse1 randomUUID st = Returned (finalState (load_v1 parse1 randomUUID st)) \<and>
   (getItem st (js ''crq_list_v3'') = None \<longrightarrow>
      crqs (finalState (load parse st)) = [] \<and> console (finalState (load parse st)) = []) \<and>
   (getItem st (js ''crq_list'') = None \<longrightarrow>
      Dashboard_v1.crqs (finalState (load_v1 parse1 randomUUID st)) = [] \<and>
      Dashboard_v1.console (finalState (load_v1 parse1 randomUUID st)) = []) \<and>
   (\<forall>item. getItem st (js ''crq_list_v3'') = Some item \<and> (item = [] \<or> parse item = None) \<longrightarrow>
      crqs (finalState (load parse st)) = [] \<and>
      console (finalState (load parse st))
        = (if item = [] then [] else [ErrorReading (js ''crq_list_v3'')])) \<and>
   (\<forall>item. getItem st (js ''crq_list'') = Some item \<and> (item = [] \<or> parse1 item = None) \<longrightarrow>
      Dashboard_v1.crqs (finalState (load_v1 parse1 randomUUID st)) = [] \<and>
      Dashboard_v1.console (finalState (load_v1 parse1 randomUUID st))
        = (if item = [] then [] else [FailedToParse]))"
  by (auto simp: load_def load_v1_def readEffect_def finalState_def initialDashboard_def
      initialDashboard_v1_def Let_def split: option.splits prod.splits)

theorem load_without_prior_data_witness:
  "crqs (finalState (load (\<lambda>t. None) emptyStorage)) = [] \<and>
   Dashboard_v1.crqs (finalState (load_v1 (\<lambda>t. None) (\<lambda>n. js ''u'') emptyStorage)) = [] \<and>
   crqs (finalState (load (\<lambda>t. None)
      \<lparr>items = [js ''crq_list_v3'' \<mapsto> js ''[{''], quotaExceeded = False\<rparr>)) = [] \<and>
   console (finalState (load (\<lambda>t. None)
      \<lparr>items = [js ''crq_list_v3'' \<mapsto> js ''[{''], quotaExceeded = False\<rparr>))
     = [ErrorReading (js ''crq_list_v3'')] \<and>
   Dashboard_v1.crqs (finalState (load_v1 (\<lambda>t. None) (\<lambda>n. js ''u'')
      \<lparr>items = [js ''crq_list'' \<mapsto> js ''[{''], quotaExceeded = False\<rparr>)) = [] \<and>
   Dashboard_v1.console (finalState (load_v1 (\<lambda>t. None) (\<lambda>n. js ''u'')
      \<lparr>items = [js ''crq_list'' \<mapsto> js ''[{''], quotaExceeded = False\<rparr>)) = [FailedToParse]"
proof -
  let ?bad3 = "\<lparr>items = [js ''crq_list_v3'' \<mapsto> js ''[{''], quotaExceeded = False\<rparr>"
  let ?bad1 = "\<lparr>items = [js ''crq_list'' \<mapsto> js ''[{''], quotaExceeded = False\<rparr>"
  have e: "getItem emptyStorage (js ''crq_list_v3'') = None" "getItem emptyStorage (js ''crq_list'') = None"
    by (simp_all add: getItem_def emptyStorage_def)
  have b3: "getItem ?bad3 (js ''crq_list_v3'') = Some (js ''[{'') \<and> (js ''[{'' = [] \<or> (\<lambda>t. None) (js ''[{'') = None)"
    by (simp add: getItem_def)
  have b1: "getItem ?bad1 (js ''crq_list'') = Some (js ''[{'') \<and> (js ''[{'' = [] \<or> (\<lambda>t. None) (js ''[{'') = None)"
    by (simp add: getItem_def)
  from load_without_prior_data[of "\<lambda>t. None" emptyStorage "\<lambda>t. None" "\<lambda>n. js ''u''"] e
  have a: "crqs (finalState (load (\<lambda>t. None) emptyStorage)) = []"
    "Dashboard_v1.crqs (finalState (load_v1 (\<lambda>t. None) (\<lambda>n. js ''u'') emptyStorage)) = []"
    by blast+
  from load_without_prior_data[of "\<lambda>t. None" ?bad3 "\<lambda>t. None" "\<lambda>n. js ''u''"] b3
  have c: "crqs (finalState (load (\<lambda>t. None) ?bad3)) = [] \<and>
      console (finalState (load (\<lambda>t. None) ?bad3))
        = (if js ''[{'' = [] then [] else [ErrorReading (js ''crq_list_v3'')])"
    by blast
  from load_without_prior_data[of "\<lambda>t. None" ?bad1 "\<lambda>t. None" "\<lambda>n. js ''u''"] b1
  have d: "Dashboard_v1.crqs (finalState (load_v1 (\<lambda>t. None) (\<lambda>n. js ''u'') ?bad1)) = [] \<and>
      Dashboard_v1.console (finalState (load_v1 (\<lambda>t. None) (\<lambda>n. js ''u'') ?bad1))
        = (if js ''[{'' = [] then [] else [FailedToParse])"
    by blast
  from a c d show ?thesis by simp
qed

text \<open>
  C6, in the early variant. \<^verbatim>\<open>handleSave\<close> and \<^verbatim>\<open>updateCrqStatus\<close> call
  \<^verbatim>\<open>localStorage.setItem\<close> outside any \<^verbatim>\<open>try\<close>: when the browser refuses the write, the
  exception leaves the handler, nothing is logged, and what follows the write in the handler
  (closing the form, the notification of the status change) does not happen; the record list
  in memory has been updated before. Shown on the freshly loaded page
  with a storage whose quota is reached, for every form content and every status update.
\<close>

theorem storage_write_failure_propagates_v1:
  "\<forall>stringify randomUUID d i st rv.
     (\<exists>s'. handleSave_v1 stringify randomUUID d
              ((initialDashboard_v1 \<lparr>items = Map.empty, quotaExceeded = True\<rparr>)
                 \<lparr>Dashboard_v1.isFormOpen := True\<rparr>)
            = Threw QuotaExceededError s' \<and>
          Dashboard_v1.crqs s' = [newCrq_v1 (randomUUID 0) (randomUUID 1) d] \<and>
          Dashboard_v1.console s' = [] \<and>
          Dashboard_v1.isFormOpen s' \<and> Dashboard_v1.crqToCopy s' = None) \<and>
     (\<exists>s'. updateCrqStatus_v1 stringify i st rv
              (initialDashboard_v1 \<lparr>items = Map.empty, quotaExceeded = True\<rparr>)
            = Threw QuotaExceededError s' \<and>
          Dashboard_v1.console s' = [] \<and> Dashboard_v1.toasts s' = [])"
  by (simp add: handleSave_v1_def updateCrqStatus_v1_def persist_v1_def setItem_def andThen_def
      initialDashboard_v1_def toast_v1_def Let_def)

text \<open>
  In the extended variant the write happens in the second effect of \<^verbatim>\<open>useLocalStorage\<close>,
  inside \<^verbatim>\<open>try\<close>: a handler followed by that effect always returns, with the record list
  the handler computed, whether or not the browser accepts the write.
\<close>

lemma storage_write_failure_is_caught:
  "andThen (handleSave randomUUID d s) (writeEffect stringify)
     = Returned (finalState (andThen (handleSave randomUUID d s) (writeEffect stringify))) \<and>
   crqs (finalState (andThen (handleSave randomUUID d s) (writeEffect stringify)))
     = crqs (finalState (handleSave randomUUID d s)) \<and>
   andThen (updateCrqStatus i st rv s) (writeEffect stringify)
     = Returned (finalState (andThen (updateCrqStatus i st rv s) (writeEffect stringify))) \<and>
   crqs (finalState (andThen (updateCrqStatus i st rv s) (writeEffect stringify)))
     = crqs (finalState (updateCrqStatus i st rv s))"
  by (auto simp: handleSave_def updateCrqStatus_def writeEffect_def andThen_def finalState_def
      toast_def Let_def split: option.splits sum.splits prod.splits)

lemma handler_result_ignores_quota:
  "crqs (finalState (handleSave randomUUID d
       (s\<lparr>localStorage := (localStorage s)\<lparr>quotaExceeded := q\<rparr>\<rparr>)))
     = crqs (finalState (handleSave randomUUID d s)) \<and>
   crqs (finalState (updateCrqStatus i st rv
       (s\<lparr>localStorage := (localStorage s)\<lparr>quotaExceeded := q\<rparr>\<rparr>)))
     = crqs (finalState (updateCrqStatus i st rv s))"
  by (auto simp: handleSave_def updateCrqStatus_def finalState_def toast_def Let_def
      split: option.splits)

section \<open>Filters and export\<close>

text \<open>
  C4. The visible list is the record list, in its order, restricted to the records that pass
  all six tests at once, whatever \<^verbatim>\<open>toLowerCase\<close> and the date format of the host are:
  the CRQ number, the summary and the reviewer contain the typed text as a substring once
  both are lowered (a record without a CRQ number or reviewer fails a typed text); the status
  and the risk are the selected ones; the start date is there and formats to the same day as
  the picked date. A test is passed by every record while its control is unset (empty text,
  \<open>All\<close>, no date). For a Pending/Low record followed by an Approved/High record and no
  other control set, selecting status Approved shows exactly the second, and selecting risk
  Low as well shows nothing.
\<close>

theorem filteredCrqs_is_conjunction:
  "filteredCrqs lower fmt s =
     filter (\<lambda>crq.
       (crqNumberFilter s = [] \<or>
          (\<exists>n. crqNumber crq = Some n \<and> sublist (lower (crqNumberFilter s)) (lower n))) \<and>
       (summaryFilter s = [] \<or> sublist (lower (summaryFilter s)) (lower (summary crq))) \<and>
       (statusFilter s = js ''All'' \<or>
          statusFilter s =
            (case status crq of Pending \<Rightarrow> js ''Pending'' | Approved \<Rightarrow> js ''Approved''
             | Declined \<Rightarrow> js ''Declined'' | Implemented \<Rightarrow> js ''Implemented''
             | Closed \<Rightarrow> js ''Closed'')) \<and>
       (riskFilter s = js ''All'' \<or>
          (\<exists>ra r. riskAssessment crq = Some ra \<and> risk ra = Some r \<and>
             riskFilter s =
               (case r of Low \<Rightarrow> js ''Low'' | Medium \<Rightarrow> js ''Medium'' | High \<Rightarrow> js ''High''))) \<and>
       (dateFilter s = None \<or>
          (\<exists>d crqDate. dateFilter s = Some d \<and>
             implementationStartDate (implementationPlan crq) = Some crqDate \<and>
             fmt crqDate = fmt d)) \<and>
       (reviewerFilter s = [] \<or>
          (\<exists>r. reviewer crq = Some r \<and> sublist (lower (reviewerFilter s)) (lower r))))
       (crqs s) \<and>
   (\<forall>r1 r2 st.
      status r1 = Pending \<and> crqRisk r1 = Some Low \<and> status r2 = Approved \<and> crqRisk r2 = Some High \<longrightarrow>
      filteredCrqs lower fmt
          ((initialDashboard st)\<lparr>crqs := [r1, r2], statusFilter := js ''Approved''\<rparr>)
        = [r2] \<and>
      filteredCrqs lower fmt
          ((initialDashboard st)\<lparr>crqs := [r1, r2], statusFilter := js ''Approved'',
                                  riskFilter := js ''Low''\<rparr>) = [])"
proof -
  have tx: "matchesText lower f v \<longleftrightarrow> f = [] \<or> (\<exists>t. v = Some t \<and> sublist (lower f) (lower t))"
    for f v
    by (cases v) (simp_all add: matchesText_def includesStr_iff_sublist)
  have stat: "matchesStatus f crq \<longleftrightarrow>
      f = js ''All'' \<or>
      f = (case status crq of Pending \<Rightarrow> js ''Pending'' | Approved \<Rightarrow> js ''Approved''
           | Declined \<Rightarrow> js ''Declined'' | Implemented \<Rightarrow> js ''Implemented''
           | Closed \<Rightarrow> js ''Closed'')" for f crq
    by (cases "status crq") (auto simp: matchesStatus_def)
  have rsk: "matchesRisk f crq \<longleftrightarrow>
      f = js ''All'' \<or>
      (\<exists>ra r. riskAssessment crq = Some ra \<and> risk ra = Some r \<and>
         f = (case r of Low \<Rightarrow> js ''Low'' | Medium \<Rightarrow> js ''Medium'' | High \<Rightarrow> js ''High''))"
    for f crq
  proof (cases "riskAssessment crq")
    case None
    then show ?thesis by (simp add: matchesRisk_def crqRisk_def)
  next
    case (Some ra)
    show ?thesis
    proof (cases "risk ra")
      case None
      with Some show ?thesis by (simp add: matchesRisk_def crqRisk_def)
    next
      case (Some r)
      with \<open>riskAssessment crq = Some ra\<close> show ?thesis
        by (cases r) (auto simp: matchesRisk_def crqRisk_def)
    qed
  qed
  have dat: "matchesDate fmt f crq \<longleftrightarrow>
      f = None \<or>
      (\<exists>d crqDate. f = Some d \<and> implementationStartDate (implementationPlan crq) = Some crqDate \<and>
         fmt crqDate = fmt d)" for f crq
    by (simp add: matchesDate_def split: option.splits)
  have conj: "filteredCrqs lower fmt s =
     filter (\<lambda>crq. matchesText lower (crqNumberFilter s) (crqNumber crq) \<and>
                   matchesText lower (summaryFilter s) (Some (summary crq)) \<and>
                   matchesStatus (statusFilter s) crq \<and>
                   matchesRisk (riskFilter s) crq \<and>
                   matchesDate fmt (dateFilter s) crq \<and>
                   matchesText lower (reviewerFilter s) (reviewer crq)) (crqs s)" for s
    unfolding filteredCrqs_def filter_filter by (rule filter_cong) auto
  have ex: "filteredCrqs lower fmt
          ((initialDashboard st)\<lparr>crqs := [r1, r2], statusFilter := js ''Approved''\<rparr>)
        = [r2] \<and>
      filteredCrqs lower fmt
          ((initialDashboard st)\<lparr>crqs := [r1, r2], statusFilter := js ''Approved'',
                                  riskFilter := js ''Low''\<rparr>) = []"
    if "status r1 = Pending \<and> crqRisk r1 = Some Low \<and> status r2 = Approved \<and> crqRisk r2 = Some High"
    for r1 r2 st
    using that
    by (simp add: conj initialDashboard_def matchesText_def matchesStatus_def matchesRisk_def
        matchesDate_def)
  have explicit: "filteredCrqs lower fmt s =
     filter (\<lambda>crq.
       (crqNumberFilter s = [] \<or>
          (\<exists>n. crqNumber crq = Some n \<and> sublist (lower (crqNumberFilter s)) (lower n))) \<and>
       (summaryFilter s = [] \<or> sublist (lower (summaryFilter s)) (lower (summary crq))) \<and>
       (statusFilter s = js ''All'' \<or>
          statusFilter s =
            (case status crq of Pending \<Rightarrow> js ''Pending'' | Approved \<Rightarrow> js ''Approved''
             | Declined \<Rightarrow> js ''Declined'' | Implemented \<Rightarrow> js ''Implemented''
             | Closed \<Rightarrow> js ''Closed'')) \<and>
       (riskFilter s = js ''All'' \<or>
          (\<exists>ra r. riskAssessment crq = Some ra \<and> risk ra = Some r \<and>
             riskFilter s =
               (case r of Low \<Rightarrow> js ''Low'' | Medium \<Rightarrow> js ''Medium'' | High \<Rightarrow> js ''High''))) \<and>
       (dateFilter s = None \<or>
          (\<exists>d crqDate. dateFilter s = Some d \<and>
             implementationStartDate (implementationPlan crq) = Some crqDate \<and>
             fmt crqDate = fmt d)) \<and>
       (reviewerFilter s = [] \<or>
          (\<exists>r. reviewer crq = Some r \<and> sublist (lower (reviewerFilter s)) (lower r))))
       (crqs s)"
    unfolding conj by (rule filter_cong) (simp_all add: tx stat rsk dat)
  show ?thesis using explicit ex by blast
qed

theorem filteredCrqs_is_conjunction_witness:
  "status sampleCrq = Pending \<and> crqRisk sampleCrq = Some Low \<and>
   filteredCrqs asciiLower (formatISODay (\<lambda>d. 0))
     ((initialDashboard emptyStorage)
        \<lparr>crqs := [sampleCrq,
                  sampleCrq\<lparr>status := Approved,
                            riskAssessment := Some \<lparr>risk = Some High, mitigationPlan = None\<rparr>\<rparr>],
         statusFilter := js ''Approved''\<rparr>)
     = [sampleCrq\<lparr>status := Approved,
                  riskAssessment := Some \<lparr>risk = Some High, mitigationPlan = None\<rparr>\<rparr>] \<and>
   filteredCrqs asciiLower (formatISODay (\<lambda>d. 0))
     ((initialDashboard emptyStorage)
        \<lparr>crqs := [sampleCrq,
                  sampleCrq\<lparr>status := Approved,
                            riskAssessment := Some \<lparr>risk = Some High, mitigationPlan = None\<rparr>\<rparr>],
         statusFilter := js ''Approved'', riskFilter := js ''Low''\<rparr>) = [] \<and>
   filteredCrqs asciiLower (formatISODay (\<lambda>d. 0))
     ((initialDashboard emptyStorage)
        \<lparr>crqs := [sampleCrq\<lparr>summary := js ''Rotate keys''\<rparr>, sampleCrq],
         summaryFilter := js ''GATE''\<rparr>) = [sampleCrq]"
proof -
  let ?r2 = "sampleCrq\<lparr>status := Approved,
                       riskAssessment := Some \<lparr>risk = Some High, mitigationPlan = None\<rparr>\<rparr>"
  let ?s = "(initialDashboard emptyStorage)
        \<lparr>crqs := [sampleCrq\<lparr>summary := js ''Rotate keys''\<rparr>, sampleCrq],
         summaryFilter := js ''GATE''\<rparr>"
  have h: "status sampleCrq = Pending \<and> crqRisk sampleCrq = Some Low \<and>
           status ?r2 = Approved \<and> crqRisk ?r2 = Some High"
    by (simp add: sampleCrq_def crqRisk_def)
  note t = filteredCrqs_is_conjunction[of asciiLower "formatISODay (\<lambda>d. 0)"]
  from t h
  have a: "filteredCrqs asciiLower (formatISODay (\<lambda>d. 0))
          ((initialDashboard emptyStorage)\<lparr>crqs := [sampleCrq, ?r2],
             statusFilter := js ''Approved''\<rparr>)
          = [?r2] \<and>
        filteredCrqs asciiLower (formatISODay (\<lambda>d. 0))
          ((initialDashboard emptyStorage)\<lparr>crqs := [sampleCrq, ?r2],
             statusFilter := js ''Approved'', riskFilter := js ''Low''\<rparr>) = []"
    by blast
  have yes: "sublist (asciiLower (js ''GATE'')) (asciiLower (js ''Upgrade gateway''))"
    by (simp add: includesStr_iff_sublist[symmetric] asciiLower_def js_def)
  have no: "\<not> sublist (asciiLower (js ''GATE'')) (asciiLower (js ''Rotate keys''))"
    by (simp add: includesStr_iff_sublist[symmetric] asciiLower_def js_def)
  have c: "crqs ?s = [sampleCrq\<lparr>summary := js ''Rotate keys''\<rparr>, sampleCrq]"
    "crqNumberFilter ?s = []" "summaryFilter ?s = js ''GATE''" "statusFilter ?s = js ''All''"
    "riskFilter ?s = js ''All''" "dateFilter ?s = None" "reviewerFilter ?s = []"
    by (simp_all add: initialDashboard_def)
  have s: "summary sampleCrq = js ''Upgrade gateway''" by (simp add: sampleCrq_def)
  from t[of ?s] have "filteredCrqs asciiLower (formatISODay (\<lambda>d. 0)) ?s
      = filter (\<lambda>crq. sublist (asciiLower (js ''GATE'')) (asciiLower (summary crq)))
          [sampleCrq\<lparr>summary := js ''Rotate keys''\<rparr>, sampleCrq]"
    unfolding c by simp
  then have b: "filteredCrqs asciiLower (formatISODay (\<lambda>d. 0)) ?s = [sampleCrq]"
    using yes no by (simp add: s)
  from h a b show ?thesis by simp
qed

text \<open>
  The date test with the formatter of a host on UTC: a date picked an hour after the start
  date, on the same day, keeps the record, and one a millisecond before it, on the day
  before, drops it.
\<close>

lemma filteredCrqs_same_day:
  "filteredCrqs lower (formatISODay (\<lambda>d. 0))
     ((sampleDashboard
         [sampleCrq\<lparr>implementationPlan :=
            (implementationPlan sampleCrq)\<lparr>implementationStartDate := Some sampleStart\<rparr>\<rparr>])
        \<lparr>dateFilter := Some (sampleStart + 3600000)\<rparr>)
     = [sampleCrq\<lparr>implementationPlan :=
            (implementationPlan sampleCrq)\<lparr>implementationStartDate := Some sampleStart\<rparr>\<rparr>]"
  "filteredCrqs lower (formatISODay (\<lambda>d. 0))
     ((sampleDashboard
         [sampleCrq\<lparr>implementationPlan :=
            (implementationPlan sampleCrq)\<lparr>implementationStartDate := Some sampleStart\<rparr>\<rparr>])
        \<lparr>dateFilter := Some (sampleStart - 1)\<rparr>) = []"
  "filteredCrqs lower (formatISODay (\<lambda>d. 0))
     ((sampleDashboard [sampleCrq])\<lparr>dateFilter := Some sampleStart\<rparr>) = []"
  by (simp_all add: filteredCrqs_def sampleDashboard_def initialDashboard_def matchesText_def
      matchesStatus_def matchesRisk_def matchesDate_def sampleStart_ISO sampleCrq_def)

text \<open>
  C9. The export hands over one row per visible record, in the order of the visible list. The
  keys of a row are the labels of the selected dashboard columns, in dashboard order, each
  once, and nothing else. Under each selected label the row holds that column of its record:
  the CRQ number and the reviewer (\<open>N/A\<close> when absent or empty), the summary, the risk level
  (\<open>N/A\<close> when absent), the status, and the start date as the host formats it (\<open>N/A\<close> when
  absent). With the columns summary and status selected a row is exactly the summary and the
  status of its record.
\<close>

theorem export_rows:
  "fst (handleExport lower fmt cols s) = map (exportRow fmt cols) (filteredCrqs lower fmt s) \<and>
   map fst (exportRow fmt cols crq) = map snd (filter (\<lambda>(i, l). i \<in> set cols) DASHBOARD_COLUMNS) \<and>
   distinct (map fst (exportRow fmt cols crq)) \<and>
   map_of (exportRow fmt cols crq) (js ''CRQ Number'') =
     (if js ''crqNumber'' \<in> set cols
      then Some (case crqNumber crq of None \<Rightarrow> js ''N/A''
                 | Some n \<Rightarrow> if n = [] then js ''N/A'' else n)
      else None) \<and>
   map_of (exportRow fmt cols crq) (js ''Summary'') =
     (if js ''summary'' \<in> set cols then Some (summary crq) else None) \<and>
   map_of (exportRow fmt cols crq) (js ''Risk'') =
     (if js ''risk'' \<in> set cols
      then Some (case Option.bind (riskAssessment crq) risk of None \<Rightarrow> js ''N/A''
                 | Some Low \<Rightarrow> js ''Low'' | Some Medium \<Rightarrow> js ''Medium''
                 | Some High \<Rightarrow> js ''High'')
      else None) \<and>
   map_of (exportRow fmt cols crq) (js ''Status'') =
     (if js ''status'' \<in> set cols
      then Some (case status crq of Pending \<Rightarrow> js ''Pending'' | Approved \<Rightarrow> js ''Approved''
                 | Declined \<Rightarrow> js ''Declined'' | Implemented \<Rightarrow> js ''Implemented''
                 | Closed \<Rightarrow> js ''Closed'')
      else None) \<and>
   map_of (exportRow fmt cols crq) (js ''Implementation Date'') =
     (if js ''implementationDate'' \<in> set cols
      then Some (case implementationStartDate (implementationPlan crq) of
                   None \<Rightarrow> js ''N/A'' | Some d \<Rightarrow> fmt d)
      else None) \<and>
   map_of (exportRow fmt cols crq) (js ''Reviewer'') =
     (if js ''reviewer'' \<in> set cols
      then Some (case reviewer crq of None \<Rightarrow> js ''N/A''
                 | Some r \<Rightarrow> if r = [] then js ''N/A'' else r)
      else None) \<and>
   (set cols = {js ''summary'', js ''status''} \<longrightarrow>
      exportRow fmt cols crq =
        [(js ''Summary'', summary crq),
         (js ''Status'',
          case status crq of Pending \<Rightarrow> js ''Pending'' | Approved \<Rightarrow> js ''Approved''
          | Declined \<Rightarrow> js ''Declined'' | Implemented \<Rightarrow> js ''Implemented''
          | Closed \<Rightarrow> js ''Closed'')])"
proof -
  have stat: "statusStr st =
      (case st of Pending \<Rightarrow> js ''Pending'' | Approved \<Rightarrow> js ''Approved''
       | Declined \<Rightarrow> js ''Declined'' | Implemented \<Rightarrow> js ''Implemented''
       | Closed \<Rightarrow> js ''Closed'')" for st
    by (cases st) simp_all
  have rsk: "riskLevelText r =
      (case r of None \<Rightarrow> js ''N/A'' | Some Low \<Rightarrow> js ''Low'' | Some Medium \<Rightarrow> js ''Medium''
       | Some High \<Rightarrow> js ''High'')" for r
    by (simp add: riskLevelText_def split: option.splits Risk.splits)
  have a: "fst (handleExport lower fmt cols s)
      = map (exportRow fmt cols) (filteredCrqs lower fmt s)"
    by (simp add: handleExport_def)
  have b: "map fst (exportRow fmt cols crq)
      = map snd (filter (\<lambda>(i, l). i \<in> set cols) DASHBOARD_COLUMNS)"
    by (simp add: exportRow_def DASHBOARD_COLUMNS_def)
  have d: "distinct (map fst (exportRow fmt cols crq))"
    by (simp add: exportRow_def)
  have c1: "map_of (exportRow fmt cols crq) (js ''CRQ Number'') =
     (if js ''crqNumber'' \<in> set cols
      then Some (case crqNumber crq of None \<Rightarrow> js ''N/A''
                 | Some n \<Rightarrow> if n = [] then js ''N/A'' else n)
      else None)"
    by (simp add: exportRow_def orNA_def)
  have c2: "map_of (exportRow fmt cols crq) (js ''Summary'') =
     (if js ''summary'' \<in> set cols then Some (summary crq) else None)"
    by (simp add: exportRow_def)
  have c3: "map_of (exportRow fmt cols crq) (js ''Risk'') =
     (if js ''risk'' \<in> set cols
      then Some (case Option.bind (riskAssessment crq) risk of None \<Rightarrow> js ''N/A''
                 | Some Low \<Rightarrow> js ''Low'' | Some Medium \<Rightarrow> js ''Medium''
                 | Some High \<Rightarrow> js ''High'')
      else None)"
    by (simp add: exportRow_def crqRisk_def rsk)
  have c4: "map_of (exportRow fmt cols crq) (js ''Status'') =
     (if js ''status'' \<in> set cols
      then Some (case status crq of Pending \<Rightarrow> js ''Pending'' | Approved \<Rightarrow> js ''Approved''
                 | Declined \<Rightarrow> js ''Declined'' | Implemented \<Rightarrow> js ''Implemented''
                 | Closed \<Rightarrow> js ''Closed'')
      else None)"
    by (simp add: exportRow_def stat)
  have c5: "map_of (exportRow fmt cols crq) (js ''Implementation Date'') =
     (if js ''implementationDate'' \<in> set cols
      then Some (case implementationStartDate (implementationPlan crq) of
                   None \<Rightarrow> js ''N/A'' | Some d \<Rightarrow> fmt d)
      else None)"
    by (simp add: exportRow_def split: option.splits)
  have c6: "map_of (exportRow fmt cols crq) (js ''Reviewer'') =
     (if js ''reviewer'' \<in> set cols
      then Some (case reviewer crq of None \<Rightarrow> js ''N/A''
                 | Some r \<Rightarrow> if r = [] then js ''N/A'' else r)
      else None)"
    by (simp add: exportRow_def orNA_def)
  have e: "exportRow fmt cols crq =
        [(js ''Summary'', summary crq),
         (js ''Status'',
          case status crq of Pending \<Rightarrow> js ''Pending'' | Approved \<Rightarrow> js ''Approved''
          | Declined \<Rightarrow> js ''Declined'' | Implemented \<Rightarrow> js ''Implemented''
          | Closed \<Rightarrow> js ''Closed'')]"
    if "set cols = {js ''summary'', js ''status''}"
    unfolding exportRow_def that by (simp add: stat)
  show ?thesis using a b d c1 c2 c3 c4 c5 c6 e by (intro conjI impI)
qed

theorem export_rows_witness:
  "set [js ''status'', js ''summary''] = {js ''summary'', js ''status''} \<and>
   fst (handleExport asciiLower (formatISODay (\<lambda>d. 0)) [js ''status'', js ''summary'']
         (sampleDashboard [sampleCrq,
            sampleCrq\<lparr>CRQ.id := js ''id-2'', status := Approved, summary := js ''Rotate keys''\<rparr>]))
     = [[(js ''Summary'', js ''Upgrade gateway''), (js ''Status'', js ''Pending'')],
        [(js ''Summary'', js ''Rotate keys''), (js ''Status'', js ''Approved'')]] \<and>
   map_of (exportRow (formatISODay (\<lambda>d. 0)) [js ''reviewer'', js ''risk''] sampleCrq)
       (js ''Reviewer'') = Some (js ''N/A'') \<and>
   map_of (exportRow (formatISODay (\<lambda>d. 0)) [js ''reviewer'', js ''risk''] sampleCrq)
       (js ''Risk'') = Some (js ''Low'') \<and>
   map_of (exportRow (formatISODay (\<lambda>d. 0)) [js ''reviewer'', js ''risk''] sampleCrq)
       (js ''Summary'') = None"
proof -
  have h: "set [js ''status'', js ''summary''] = {js ''summary'', js ''status''}" by auto
  note t = export_rows[of asciiLower "formatISODay (\<lambda>d. 0)"]
  from t[of "[js ''status'', js ''summary'']"] h
  have a: "fst (handleExport asciiLower (formatISODay (\<lambda>d. 0)) [js ''status'', js ''summary'']
         (sampleDashboard [sampleCrq,
            sampleCrq\<lparr>CRQ.id := js ''id-2'', status := Approved, summary := js ''Rotate keys''\<rparr>]))
     = [[(js ''Summary'', js ''Upgrade gateway''), (js ''Status'', js ''Pending'')],
        [(js ''Summary'', js ''Rotate keys''), (js ''Status'', js ''Approved'')]]"
    by (simp add: filteredCrqs_sampleDashboard sampleCrq_def)
  from t[of "[js ''reviewer'', js ''risk'']" _ sampleCrq]
  have b: "map_of (exportRow (formatISODay (\<lambda>d. 0)) [js ''reviewer'', js ''risk''] sampleCrq)
       (js ''Reviewer'') = Some (js ''N/A'')"
    "map_of (exportRow (formatISODay (\<lambda>d. 0)) [js ''reviewer'', js ''risk''] sampleCrq)
       (js ''Risk'') = Some (js ''Low'')"
    "map_of (exportRow (formatISODay (\<lambda>d. 0)) [js ''reviewer'', js ''risk''] sampleCrq)
       (js ''Summary'') = None"
    by (simp_all add: sampleCrq_def)
  from h a b show ?thesis by simp
qed

section \<open>Template generator\<close>

subsection \<open>What a line prints\<close>


















subsection \<open>The lines of an application and of a monitored change\<close>






subsection \<open>The sections\<close>












subsection \<open>Writing \<open>N/A\<close> into the record changes nothing\<close>














subsection \<open>The result of the generator\<close>




text \<open>
  The early generator has the same Summary entry and no guard at all: its result always has
  its five entries.
\<close>

lemma generateCopySections_v1_entries:
  "map fst (generateCopySections_v1 fmt (Some crq))
     = [js ''Summary'', js ''Description'', js ''Implementation plan'', js ''Validation plan'',
        js ''Backout plan'']"
  "map_of (generateCopySections_v1 fmt (Some crq)) (js ''Summary'') = Some (CRQ_v1.summary crq)"
  by (simp_all add: generateCopySections_v1_def)

subsection \<open>What the generator reads\<close>




end
